theory Spec2Isabelle
  imports Main "HOL-Library.Sublist"
begin

section \<open>Python values, exceptions and text\<close>

text \<open>
  The two source files are \<^verbatim>\<open>src/prompts.py\<close> (the prompt library) and
  \<^verbatim>\<open>src/app.py\<close> (the transport client \<^verbatim>\<open>make_api_call\<close>, the orchestrator
  \<^verbatim>\<open>get_response\<close> and the page \<^verbatim>\<open>main\<close>).

  Python text is a \<^typ>\<open>string\<close> holding its UTF-8 encoding, so the pictographs of
  the templates are a few bytes each, and concatenation and containment of text are
  those of the byte lists. The values that travel through the code are texts and what a
  JSON document decodes to: \<^verbatim>\<open>None\<close>, booleans, numbers (kept as their literal,
  since no code modelled here reads a number), texts, lists and dicts with text keys in
  insertion order.
\<close>

datatype json =
    JNull
  | JBool bool
  | JNum string
  | JStr string
  | JArr "json list"
  | JObj "(string \<times> json) list"

text \<open>
  The exceptions that the modelled code raises or meets. \<open>Exception m\<close> is the plain
  \<^verbatim>\<open>Exception(m)\<close> that \<^verbatim>\<open>make_api_call\<close> raises itself; the others are the
  built-in classes raised by the operations it and \<^verbatim>\<open>parse_assumptions_response\<close>
  use. All of them are subclasses of \<^verbatim>\<open>Exception\<close>, so a handler
  \<^verbatim>\<open>except Exception\<close> catches each; what is not one (an interrupt, the exit of
  the interpreter, the exceptions by which Streamlit stops or reruns a script) is not
  modelled. A computation that may raise has a result of type \<open>exn + 'a\<close>.
\<close>

datatype exn =
    Exception string
  | JSONDecodeError
  | ValueError
  | RecursionError
  | KeyError
  | IndexError
  | TypeError
  | AttributeError

definition newline :: string where
  "newline = [CHR 0x0A]"

text \<open>\<^verbatim>\<open>sep.join(items)\<close> on a list of texts.\<close>

fun str_join :: "string \<Rightarrow> string list \<Rightarrow> string" where
  "str_join sep [] = []"
| "str_join sep [x] = x"
| "str_join sep (x # y # ys) = x @ sep @ str_join sep (y # ys)"

text \<open>
  Iterating a text yields its characters: in the UTF-8 encoding, a byte together with
  the continuation bytes (\<open>0x80\<close> to \<open>0xBF\<close>) that follow it.
\<close>

definition is_continuation :: "char \<Rightarrow> bool" where
  "is_continuation c = (0x80 \<le> (of_char c :: nat) \<and> (of_char c :: nat) < 0xC0)"

function str_chars :: "string \<Rightarrow> string list" where
  "str_chars [] = []"
| "str_chars (c # cs) =
     (c # takeWhile is_continuation cs) # str_chars (dropWhile is_continuation cs)"
  by pat_completeness auto
termination
  by (relation "measure length") (auto simp: less_Suc_eq_le length_dropWhile_le)

text \<open>\<^verbatim>\<open>str(n)\<close> of an integer: its decimal digits, with a sign when negative.\<close>

function digits_of :: "nat \<Rightarrow> string" where
  "digits_of n =
     (if n < 10 then [char_of (48 + n)]
      else digits_of (n div 10) @ [char_of (48 + n mod 10)])"
  by pat_completeness auto
termination
  by (relation "measure (\<lambda>n. n)") auto

definition str_int :: "int \<Rightarrow> string" where
  "str_int i = (if i < 0 then CHR ''-'' # digits_of (nat (- i)) else digits_of (nat i))"

text \<open>
  \<^verbatim>\<open>str(v)\<close>, which an f-string applies to each interpolated value: a text is
  itself; for any other value Python prints its \<^verbatim>\<open>repr\<close>, which is taken as a
  parameter \<open>py_repr\<close> (it depends on the float printer and on the Unicode tables).
\<close>

definition py_str :: "(json \<Rightarrow> string) \<Rightarrow> json \<Rightarrow> string" where
  "py_str py_repr v = (case v of JStr s \<Rightarrow> s | _ \<Rightarrow> py_repr v)"

text \<open>
  \<^verbatim>\<open>"\n".join(v)\<close> on a decoded value: a list must hold texts only, a text is
  joined character by character, a dict gives its keys, and anything else is not
  iterable.
\<close>

fun str_items :: "json list \<Rightarrow> string list option" where
  "str_items [] = Some []"
| "str_items (JStr s # vs) = map_option ((#) s) (str_items vs)"
| "str_items (_ # vs) = None"

definition join_lines :: "json \<Rightarrow> exn + string" where
  "join_lines v =
     (case v of
        JArr vs \<Rightarrow>
          (case str_items vs of
             None \<Rightarrow> Inl TypeError
           | Some ls \<Rightarrow> Inr (str_join newline ls))
      | JStr s \<Rightarrow> Inr (str_join newline (str_chars s))
      | JObj kvs \<Rightarrow> Inr (str_join newline (map fst kvs))
      | _ \<Rightarrow> Inl TypeError)"

text \<open>
  \<^verbatim>\<open>data.get(key, default)\<close>: only a dict has the method; every other decoded
  value raises \<^verbatim>\<open>AttributeError\<close>.
\<close>

definition dict_get :: "json \<Rightarrow> string \<Rightarrow> json \<Rightarrow> exn + json" where
  "dict_get data key dflt =
     (case data of
        JObj kvs \<Rightarrow> Inr (case map_of kvs key of None \<Rightarrow> dflt | Some v \<Rightarrow> v)
      | _ \<Rightarrow> Inl AttributeError)"

text \<open>
  Subscription \<^verbatim>\<open>v[key]\<close> with a text key and \<^verbatim>\<open>v[0]\<close>. A dict decoded from
  JSON has text keys only, so \<^verbatim>\<open>d[0]\<close> is always a \<^verbatim>\<open>KeyError\<close>.
\<close>

definition getitem_key :: "json \<Rightarrow> string \<Rightarrow> exn + json" where
  "getitem_key v key =
     (case v of
        JObj kvs \<Rightarrow> (case map_of kvs key of None \<Rightarrow> Inl KeyError | Some x \<Rightarrow> Inr x)
      | _ \<Rightarrow> Inl TypeError)"

definition getitem_0 :: "json \<Rightarrow> exn + json" where
  "getitem_0 v =
     (case v of
        JArr xs \<Rightarrow> (case xs of [] \<Rightarrow> Inl IndexError | x # _ \<Rightarrow> Inr x)
      | JStr s \<Rightarrow> (case str_chars s of [] \<Rightarrow> Inl IndexError | c # _ \<Rightarrow> Inr (JStr c))
      | JObj kvs \<Rightarrow> Inl KeyError
      | _ \<Rightarrow> Inl TypeError)"

section \<open>The prompt library (prompts.py)\<close>


text \<open>
  \<^verbatim>\<open>get_solidity_expert_prompt\<close> returns a fixed text; \<^verbatim>\<open>get_assumptions_prompt\<close>
  is an f-string of its two arguments. The second argument is whatever
  \<^verbatim>\<open>make_api_call\<close> returned, so it is interpolated through \<open>py_str\<close>.
\<close>

definition get_solidity_expert_prompt :: string where
  \<open>get_solidity_expert_prompt = ''You are a Solidity expert, and you will be generating smart contracts.
Focus on writing clean, secure, and efficient Solidity code.
Use SPDX license identifiers. Use clear variable and contract naming conventions (CamelCase for variables, UpperCamelCase for contracts).
Implement thorough error handling and utilize testing frameworks like Foundry.
Prioritize gas optimization and ensure code is well-commented.
Also, be mindful of common vulnerabilities and strive to write secure code.

''
 @ ''# Solidity Smart Contract Development Rules

''
 @ ''## Core Principles

''
 @ ''- Security first: Use OpenZeppelin contracts, implement reentrancy guards, proper access controls
- Gas optimization: Prefer uint256, use memory/storage appropriately, minimize storage operations
- Follow Checks-Effects-Interactions pattern
- Use explicit function visibility and comprehensive natspec documentation
- **ALWAYS verify token balances and state consistency in tests**

''
 @ ''## Code Structure

''
 @ ''- Contract naming: PascalCase
- Function naming: camelCase
- Constants: UPPER_CASE
- Function order: constructor, receive/fallback, external, public, internal, private
- Always use SPDX license identifier

''
 @ ''## Solidity & OpenZeppelin Versions

''
 @ ''Solidity: ^0.8.24
OpenZeppelin: ^5.4.0
**NEVER use git submodules for dependency management - use forge install with remappings**

''
 @ ''## Required Imports & Patterns

''
 @ ''- ReentrancyGuard
- Ownable
- Pausable
- AccessControl
- **MerkleProof for airdrop implementations based on OpenZeppelin. Instead of preallocating the proof array, use a dynamic array and push elements as you build the proof.**

''
 @ ''## Security Requirements

''
 @ ''- Never use tx.origin for authorization
- Implement nonReentrant for fund transfers
- Use custom errors instead of require strings for gas efficiency
- Add circuit breakers for critical functions
- Validate all external inputs
- **Always verify Merkle proofs using OpenZeppelin's MerkleProof.verify**
- **Merkle Tree Compatibility: Use sorted-pair Merkle trees for OpenZeppelin compatibility**

''
 @ ''## Gas Optimization

''
 @ ''- Use uint256 for calculations (most efficient on EVM)
- Pack structs efficiently
- Use events instead of storage for historical data
- Minimize external calls
- Use assembly for gas-critical operations when necessary
- **Use unchecked blocks for safe arithmetic operations**

''
 @ ''## Testing Requirements

''
 @ ''- Write comprehensive tests with Foundry
- Test edge cases and error conditions
- Use fuzzing for input validation
- Test with different user roles and permissions
- **ALWAYS use MOCK ERC20 token for tests**
- **Test with realistic token amounts and edge cases**

''
 @ ''## Error Handling

''
 @ ''- Use custom errors for gas efficiency
- Implement proper access control
- Add circuit breakers for emergency situations
- Validate all inputs and state transitions
- Use try-catch for external calls when appropriate

''
 @ ''## Documentation

''
 @ ''- Use natspec comments for all public functions
- Document all state variables
- Explain complex logic and algorithms
- Include usage examples in comments
- Document security considerations

''
 @ ''## Deployment Considerations

''
 @ ''- Use proper constructor parameters
- Implement upgrade patterns when needed
- Consider gas costs for deployment
- Use deterministic addresses when possible
- **Always include proper initialization checks**

''
 @ ''## Common Patterns

''
 @ ''- Use OpenZeppelin's ReentrancyGuard for fund transfers
- Implement proper access control with roles
- Use events for important state changes
- Implement pausable functionality for emergency stops
- Use time-based locks for critical operations

''
 @ ''## Security Checklist

''
 @ ''- [ ] No reentrancy vulnerabilities
- [ ] Proper access control implemented
- [ ] Input validation on all external functions
- [ ] No integer overflow/underflow (Solidity 0.8+)
- [ ] Proper error handling
- [ ] Events emitted for important actions
- [ ] No use of tx.origin for authorization
- [ ] Proper use of require/assert statements
- [ ] No hardcoded addresses or magic numbers
- [ ] Proper use of external vs public functions

''
 @ ''## Testing Checklist

''
 @ ''- [ ] Unit tests for all functions
- [ ] Integration tests for complex workflows
- [ ] Edge case testing
- [ ] Gas optimization testing
- [ ] Security vulnerability testing
- [ ] Access control testing
- [ ] Error condition testing
- [ ] State transition testing

''
 @ ''## Code Quality Standards

''
 @ ''- Follow Solidity style guide
- Use meaningful variable and function names
- Keep functions small and focused
- Avoid deep nesting
- Use consistent formatting
- Add comments for complex logic
- Use type hints and explicit conversions
- **Always use the latest Solidity features and best practices**

''
 @ ''## OpenZeppelin Integration

''
 @ ''- Use OpenZeppelin contracts for security
- Implement proper inheritance patterns
- Use OpenZeppelin's access control system
- Leverage OpenZeppelin's upgradeable contracts when needed
- **Always use OpenZeppelin's MerkleProof for airdrop implementations**

''
 @ ''## Advanced Patterns

''
 @ ''- Implement proxy patterns for upgradeability
- Use library contracts for reusable code
- Implement factory patterns for contract creation
- Use delegatecall for modular functionality
- **Implement proper initialization patterns for upgradeable contracts**

''
 @ ''## Gas Optimization Techniques

''
 @ ''- Use storage vs memory appropriately
- Pack structs to minimize storage slots
- Use events instead of storage for historical data
- Implement batch operations when possible
- Use assembly for gas-critical operations
- **Optimize for gas costs in production deployments**

''
 @ ''## Security Best Practices

''
 @ ''- Implement proper access control
- Use reentrancy guards
- Validate all inputs
- Implement circuit breakers
- Use time-based locks for critical operations
- **Always verify external contract interactions**

''
 @ ''## Testing Best Practices

''
 @ ''- Write comprehensive test suites
- Test all edge cases
- Use fuzzing for input validation
- Test with different user roles
- **Always test with realistic scenarios and amounts**

''
 @ ''## Deployment Best Practices

''
 @ ''- Use proper constructor parameters
- Implement proper initialization
- Consider gas costs
- Use deterministic addresses when possible
- **Always include proper verification and testing before deployment**

''
 @ ''## Common Vulnerabilities to Avoid

''
 @ ''- Reentrancy attacks
- Integer overflow/underflow
- Access control bypass
- Front-running vulnerabilities
- Denial of service attacks
- **Always implement proper security measures and test thoroughly**

''
 @ ''## Code Examples

''
 @ ''```solidity
// SPDX-License-Identifier: MIT
pragma solidity ^0.8.24;

''
 @ ''import "@openzeppelin/contracts/security/ReentrancyGuard.sol";
import "@openzeppelin/contracts/access/Ownable.sol";
import "@openzeppelin/contracts/security/Pausable.sol";

''
 @ ''contract ExampleContract is ReentrancyGuard, Ownable, Pausable {
    // State variables
    uint256 public constant MAX_SUPPLY = 1000000;
    uint256 public totalSupply;
    
    // Events
    event TokenMinted(address indexed to, uint256 amount);
    
    // Modifiers
    modifier onlyWhenNotPaused() {
        require(!paused(), "Contract is paused");
        _;
    }
    
    // Functions
    function mint(address to, uint256 amount) 
        external 
        onlyOwner 
        onlyWhenNotPaused 
        nonReentrant 
    {
        require(totalSupply + amount <= MAX_SUPPLY, "Exceeds max supply");
        totalSupply += amount;
        emit TokenMinted(to, amount);
    }
}
```

''
 @ ''## Testing Examples

''
 @ ''```solidity
// SPDX-License-Identifier: MIT
pragma solidity ^0.8.24;

''
 @ ''import "forge-std/Test.sol";
import "forge-std/console.sol";
import "../src/ExampleContract.sol";

''
 @ ''contract ExampleContractTest is Test {
    ExampleContract public exampleContract;
    address public owner = address(0x1);
    address public user = address(0x2);
    
    function setUp() public {
        vm.prank(owner);
        exampleContract = new ExampleContract();
    }
    
    function testMint() public {
        vm.prank(owner);
        exampleContract.mint(user, 1000);
        assertEq(exampleContract.totalSupply(), 1000);
    }
    
    function testMintFailsWhenNotOwner() public {
        vm.prank(user);
        vm.expectRevert();
        exampleContract.mint(user, 1000);
    }
}
```

''
 @ ''**Remember: Always prioritize security, gas efficiency, and code quality in your implementations.**
''\<close>

definition get_assumptions_prompt :: "(json \<Rightarrow> string) \<Rightarrow> string \<Rightarrow> json \<Rightarrow> string" where
  \<open>get_assumptions_prompt py_repr user_input improved_response =
     ''Analyze the following Solidity code and identify all assumptions made that weren't explicitly specified by the user.\<newline>''
       @ ''\<newline>''
       @ ''Original User Request: ''
       @ user_input
       @ ''\<newline>''
       @ ''\<newline>''
       @ ''Generated Code:\<newline>''
       @ py_str py_repr improved_response
       @ ''\<newline>''
       @ ''\<newline>''
       @ ''**IMPORTANT: Respond with valid JSON only in this exact format:**\<newline>''
       @ ''\<newline>''
       @ ''{\<newline>''
       @ ''  "technical_assumptions": [\<newline>''
       @ ''    "Assumption 1: Description of what was assumed",\<newline>''
       @ ''    "Assumption 2: Description of what was assumed"\<newline>''
       @ ''  ],\<newline>''
       @ ''  "security_assumptions": [\<newline>''
       @ ''    "Assumption 1: Description of what was assumed",\<newline>''
       @ ''    "Assumption 2: Description of what was assumed"\<newline>''
       @ ''  ],\<newline>''
       @ ''  "implementation_assumptions": [\<newline>''
       @ ''    "Assumption 1: Description of what was assumed",\<newline>''
       @ ''    "Assumption 2: Description of what was assumed"\<newline>''
       @ ''  ]\<newline>''
       @ ''}\<newline>''
       @ ''\<newline>''
       @ ''Be specific about what was assumed and why it wasn't explicitly requested by the user. Return only the JSON, no other text.''\<close>

text \<open>
  Sequencing of computations that may raise: the first exception ends the block.
\<close>

definition and_then :: "exn + 'a \<Rightarrow> ('a \<Rightarrow> exn + 'b) \<Rightarrow> exn + 'b" where
  "and_then m f = (case m of Inl e \<Rightarrow> Inl e | Inr x \<Rightarrow> f x)"

text \<open>
  \<^verbatim>\<open>parse_assumptions_response\<close>. The decoder \<^verbatim>\<open>json.loads\<close> is the parameter
  \<open>loads\<close>; applied to a value that is not a text it raises \<^verbatim>\<open>TypeError\<close> before
  decoding anything. The \<^verbatim>\<open>try\<close> block is the inner expression, and the single
  handler \<^verbatim>\<open>except json.JSONDecodeError\<close> is the outer case: every other
  exception leaves the function.
\<close>

definition parse_assumptions_response ::
  "(string \<Rightarrow> exn + json) \<Rightarrow> json \<Rightarrow> exn + string \<times> string" where
  "parse_assumptions_response loads assumptions_response =
     (case
        and_then (case assumptions_response of JStr s \<Rightarrow> loads s | _ \<Rightarrow> Inl TypeError)
          (\<lambda>data.
        and_then (dict_get data ''technical_assumptions'' (JArr [])) (\<lambda>tv.
        and_then (join_lines tv) (\<lambda>technical_assumptions.
        and_then (dict_get data ''security_assumptions'' (JArr [])) (\<lambda>sv.
        and_then (join_lines sv) (\<lambda>security_assumptions.
        and_then (dict_get data ''implementation_assumptions'' (JArr [])) (\<lambda>iv.
        and_then (join_lines iv) (\<lambda>implementation_assumptions.
          Inr (if implementation_assumptions \<noteq> []
               then technical_assumptions @ newline @ newline
                      @ ''Implementation Assumptions:'' @ newline
                      @ implementation_assumptions
               else technical_assumptions,
               security_assumptions))))))))
      of
        Inl e \<Rightarrow>
          if e = JSONDecodeError
          then Inr (''Failed to parse assumptions as JSON'',
                    ''Failed to parse assumptions as JSON'')
          else Inl e
      | Inr r \<Rightarrow> Inr r)"

section \<open>A decoder for JSON text\<close>

text \<open>
  The theorems about \<^verbatim>\<open>parse_assumptions_response\<close> hold for every decoder
  \<open>loads\<close>. To run the function on a concrete reply, \<open>json_loads\<close> follows the
  decoder of Python's \<^verbatim>\<open>json\<close> module (\<^verbatim>\<open>JSONDecoder.decode\<close>, \<^verbatim>\<open>scan_once\<close>,
  \<^verbatim>\<open>JSONObject\<close>, \<^verbatim>\<open>JSONArray\<close>, \<^verbatim>\<open>py_scanstring\<close>) on the JSON grammar: white
  space, the three literals, numbers and the three names \<^verbatim>\<open>NaN\<close>, \<^verbatim>\<open>Infinity\<close>,
  \<^verbatim>\<open>-Infinity\<close>, strings with their escapes (strict: no control character inside),
  arrays, and objects in which a repeated key keeps its first place and its last value.
  A syntax error is \<^verbatim>\<open>JSONDecodeError\<close>. The nested calls are counted down from a
  bound, and reaching it is \<^verbatim>\<open>RecursionError\<close>; the interpreter's own limits (its
  stack depth, the longest integer literal it converts) are not part of the model.
\<close>

definition is_whitespace :: "char \<Rightarrow> bool" where
  "is_whitespace c = (c = CHR '' '' \<or> c = CHR 0x09 \<or> c = CHR 0x0A \<or> c = CHR 0x0D)"

definition skip_ws :: "string \<Rightarrow> string" where
  "skip_ws cs = dropWhile is_whitespace cs"

definition is_digit :: "char \<Rightarrow> bool" where
  "is_digit c = (48 \<le> (of_char c :: nat) \<and> (of_char c :: nat) \<le> 57)"

definition hex_value :: "char \<Rightarrow> nat option" where
  "hex_value c =
     (let n = (of_char c :: nat) in
      if 48 \<le> n \<and> n \<le> 57 then Some (n - 48)
      else if 65 \<le> n \<and> n \<le> 70 then Some (n - 55)
      else if 97 \<le> n \<and> n \<le> 102 then Some (n - 87)
      else None)"

text \<open>The code point of the four hexadecimal digits at the front of a text.\<close>

definition decode_uXXXX :: "string \<Rightarrow> nat option" where
  "decode_uXXXX cs =
     (case map hex_value (take 4 cs) of
        [Some a, Some b, Some c, Some d] \<Rightarrow> Some (((a * 16 + b) * 16 + c) * 16 + d)
      | _ \<Rightarrow> None)"

text \<open>
  The UTF-8 bytes of a code point. A surrogate that an escape leaves unpaired is
  written in the same three-byte form.
\<close>

definition utf8_encode :: "nat \<Rightarrow> string" where
  "utf8_encode n =
     (if n < 0x80 then [char_of n]
      else if n < 0x800 then [char_of (0xC0 + n div 64), char_of (0x80 + n mod 64)]
      else if n < 0x10000 then
        [char_of (0xE0 + n div 4096), char_of (0x80 + n div 64 mod 64),
         char_of (0x80 + n mod 64)]
      else
        [char_of (0xF0 + n div 262144), char_of (0x80 + n div 4096 mod 64),
         char_of (0x80 + n div 64 mod 64), char_of (0x80 + n mod 64)])"

definition escape_char :: "char \<Rightarrow> char option" where
  "escape_char e =
     (if e = CHR 0x22 \<or> e = CHR 0x5C \<or> e = CHR ''/'' then Some e
      else if e = CHR ''b'' then Some (CHR 0x08)
      else if e = CHR ''f'' then Some (CHR 0x0C)
      else if e = CHR ''n'' then Some (CHR 0x0A)
      else if e = CHR ''r'' then Some (CHR 0x0D)
      else if e = CHR ''t'' then Some (CHR 0x09)
      else None)"

definition prepend :: "string \<Rightarrow> (string \<times> string) option \<Rightarrow> (string \<times> string) option" where
  "prepend s r = map_option (\<lambda>(t, rest). (s @ t, rest)) r"

text \<open>
  \<open>scanstring\<close> reads a string body after its opening quote and returns the decoded
  text and what follows the closing quote; \<open>None\<close> is a syntax error.
\<close>

function scanstring :: "string \<Rightarrow> (string \<times> string) option" where
  "scanstring [] = None"
| "scanstring (c # cs) =
     (if c = CHR 0x22 then Some ([], cs)
      else if c = CHR 0x5C then
        (case cs of
           [] \<Rightarrow> None
         | e # es \<Rightarrow>
             if e = CHR ''u'' then
               (case decode_uXXXX es of
                  None \<Rightarrow> None
                | Some uni \<Rightarrow>
                    if 0xD800 \<le> uni \<and> uni \<le> 0xDBFF
                       \<and> take 2 (drop 4 es) = [CHR 0x5C, CHR ''u'']
                    then
                      (case decode_uXXXX (drop 6 es) of
                         None \<Rightarrow> None
                       | Some uni2 \<Rightarrow>
                           if 0xDC00 \<le> uni2 \<and> uni2 \<le> 0xDFFF
                           then prepend
                                  (utf8_encode
                                     (0x10000 + (uni - 0xD800) * 1024 + (uni2 - 0xDC00)))
                                  (scanstring (drop 10 es))
                           else prepend (utf8_encode uni) (scanstring (drop 4 es)))
                    else prepend (utf8_encode uni) (scanstring (drop 4 es)))
             else
               (case escape_char e of
                  None \<Rightarrow> None
                | Some ch \<Rightarrow> prepend [ch] (scanstring es)))
      else if (of_char c :: nat) < 0x20 then None
      else prepend [c] (scanstring cs))"
  by pat_completeness auto
termination
  by (relation "measure length") auto

text \<open>
  A number literal: an optional sign, an integer part without a leading zero, an
  optional fraction and an optional exponent, each taken only when complete.
\<close>

definition match_number :: "string \<Rightarrow> (string \<times> string) option" where
  "match_number cs =
     (let (sign, r0) =
            (case cs of
               c # r \<Rightarrow> if c = CHR ''-'' then ([c], r) else ([], cs)
             | [] \<Rightarrow> ([], cs))
      in case r0 of
           [] \<Rightarrow> None
         | d # r1 \<Rightarrow>
             if \<not> is_digit d then None
             else
               let (ip, r2) =
                     (if d = CHR ''0'' then ([d], r1)
                      else (d # takeWhile is_digit r1, dropWhile is_digit r1));
                   (fp, r3) =
                     (case r2 of
                        p # q \<Rightarrow>
                          if p = CHR ''.'' \<and> takeWhile is_digit q \<noteq> []
                          then (p # takeWhile is_digit q, dropWhile is_digit q)
                          else ([], r2)
                      | [] \<Rightarrow> ([], r2));
                   (ep, r4) =
                     (case r3 of
                        e # r \<Rightarrow>
                          if e = CHR ''e'' \<or> e = CHR ''E'' then
                            (let (s, r') =
                                   (case r of
                                      c # t \<Rightarrow>
                                        if c = CHR ''+'' \<or> c = CHR ''-'' then ([c], t)
                                        else ([], r)
                                    | [] \<Rightarrow> ([], r))
                             in if takeWhile is_digit r' = [] then ([], r3)
                                else (e # s @ takeWhile is_digit r', dropWhile is_digit r'))
                          else ([], r3)
                      | [] \<Rightarrow> ([], r3))
               in Some (sign @ ip @ fp @ ep, r4))"

text \<open>\<^verbatim>\<open>d[key] = value\<close> on a dict kept in insertion order, and \<^verbatim>\<open>dict(pairs)\<close>.\<close>

fun dict_store :: "(string \<times> json) list \<Rightarrow> string \<Rightarrow> json \<Rightarrow> (string \<times> json) list" where
  "dict_store [] k v = [(k, v)]"
| "dict_store ((k', v') # d) k v =
     (if k' = k then (k, v) # d else (k', v') # dict_store d k v)"

definition py_dict :: "(string \<times> json) list \<Rightarrow> (string \<times> json) list" where
  "py_dict pairs = foldl (\<lambda>d (k, v). dict_store d k v) [] pairs"

fun scan_once :: "nat \<Rightarrow> string \<Rightarrow> exn + json \<times> string"
and json_object :: "nat \<Rightarrow> string \<Rightarrow> (string \<times> json) list \<Rightarrow> exn + json \<times> string"
and json_array :: "nat \<Rightarrow> string \<Rightarrow> json list \<Rightarrow> exn + json \<times> string"
where
  "scan_once 0 cs = Inl RecursionError"
| "scan_once (Suc n) cs =
     (case cs of
        [] \<Rightarrow> Inl JSONDecodeError
      | c # r \<Rightarrow>
          if c = CHR 0x22 then
            (case scanstring r of
               None \<Rightarrow> Inl JSONDecodeError
             | Some (s, r') \<Rightarrow> Inr (JStr s, r'))
          else if c = CHR 0x7B then
            (case skip_ws r of
               [] \<Rightarrow> Inl JSONDecodeError
             | d # r' \<Rightarrow>
                 if d = CHR 0x7D then Inr (JObj [], r') else json_object n (d # r') [])
          else if c = CHR 0x5B then
            (case skip_ws r of
               [] \<Rightarrow> Inl JSONDecodeError
             | d # r' \<Rightarrow>
                 if d = CHR 0x5D then Inr (JArr [], r') else json_array n (d # r') [])
          else if take 4 cs = ''null'' then Inr (JNull, drop 4 cs)
          else if take 4 cs = ''true'' then Inr (JBool True, drop 4 cs)
          else if take 5 cs = ''false'' then Inr (JBool False, drop 5 cs)
          else
            (case match_number cs of
               Some (lx, r') \<Rightarrow> Inr (JNum lx, r')
             | None \<Rightarrow>
                 if take 3 cs = ''NaN'' then Inr (JNum ''NaN'', drop 3 cs)
                 else if take 8 cs = ''Infinity'' then Inr (JNum ''Infinity'', drop 8 cs)
                 else if take 9 cs = ''-Infinity'' then Inr (JNum ''-Infinity'', drop 9 cs)
                 else Inl JSONDecodeError))"
| "json_object 0 cs pairs = Inl RecursionError"
| "json_object (Suc n) cs pairs =
     (case cs of
        [] \<Rightarrow> Inl JSONDecodeError
      | c # r \<Rightarrow>
          if c \<noteq> CHR 0x22 then Inl JSONDecodeError
          else
            (case scanstring r of
               None \<Rightarrow> Inl JSONDecodeError
             | Some (key, r1) \<Rightarrow>
                 (case skip_ws r1 of
                    [] \<Rightarrow> Inl JSONDecodeError
                  | colon # r2 \<Rightarrow>
                      if colon \<noteq> CHR 0x3A then Inl JSONDecodeError
                      else
                        (case scan_once n (skip_ws r2) of
                           Inl e \<Rightarrow> Inl e
                         | Inr (v, r3) \<Rightarrow>
                             (case skip_ws r3 of
                                [] \<Rightarrow> Inl JSONDecodeError
                              | d # r4 \<Rightarrow>
                                  if d = CHR 0x7D
                                  then Inr (JObj (py_dict (pairs @ [(key, v)])), r4)
                                  else if d = CHR 0x2C
                                  then json_object n (skip_ws r4) (pairs @ [(key, v)])
                                  else Inl JSONDecodeError)))))"
| "json_array 0 cs vals = Inl RecursionError"
| "json_array (Suc n) cs vals =
     (case scan_once n cs of
        Inl e \<Rightarrow> Inl e
      | Inr (v, r1) \<Rightarrow>
          (case skip_ws r1 of
             [] \<Rightarrow> Inl JSONDecodeError
           | d # r2 \<Rightarrow>
               if d = CHR 0x5D then Inr (JArr (vals @ [v]), r2)
               else if d = CHR 0x2C then json_array n (skip_ws r2) (vals @ [v])
               else Inl JSONDecodeError))"

definition json_loads :: "string \<Rightarrow> exn + json" where
  "json_loads s =
     (case scan_once (2 * length s + 2) (skip_ws s) of
        Inl e \<Rightarrow> Inl e
      | Inr (v, r) \<Rightarrow> if skip_ws r = [] then Inr v else Inl JSONDecodeError)"

section \<open>The transport client and the orchestrator (app.py)\<close>

text \<open>
  \<open>copilot\<close> is the \<^verbatim>\<open>SolidityCopilot\<close> object: the three settings that
  \<^verbatim>\<open>__init__\<close> reads from the environment.
\<close>

record copilot =
  api_key :: string
  base_url :: string
  model_name :: string

text \<open>
  What \<^verbatim>\<open>session.post\<close> is called with, and what comes back: a response with its
  status, its body as text (\<^verbatim>\<open>response.text\<close>) and the result of
  \<^verbatim>\<open>response.json()\<close>, or an exception raised inside the \<^verbatim>\<open>try\<close> block, of
  which the code keeps only \<^verbatim>\<open>str(api_error)\<close>.
\<close>

record api_request =
  req_url :: string
  req_headers :: "(string \<times> string) list"
  req_json :: json
  req_timeout :: nat
  req_verify :: bool

record response =
  status_code :: int
  body_text :: string
  body_json :: "exn + json"

datatype attempt = Failed string | Responded response

text \<open>
  Everything outside the two files is a parameter: the network (the outcome of the
  \<open>n\<close>-th request of a turn), the decoder \<^verbatim>\<open>json.loads\<close>, \<^verbatim>\<open>repr\<close> on
  values that are not texts, and Streamlit where it displays the results of a turn.
  The calls made are recorded in order, so that a statement can speak about the
  requests of a turn.

  \<open>show_expanders\<close> is the outcome of the two expanders that \<^verbatim>\<open>get_response\<close>
  fills after step 3 (\<^verbatim>\<open>st.text_area\<close> on the improved response, and the rows that
  \<^verbatim>\<open>split\<close> and \<^verbatim>\<open>strip\<close> make of the two assumption texts, given to
  \<^verbatim>\<open>st.table\<close>); \<open>display_flow_visualization\<close> is the outcome of the method of
  that name, which is a sequence of Streamlit calls on its three arguments;
  \<open>display_chat_message\<close> is the outcome of the function of that name on a role and
  a content. Each is \<open>None\<close> when the calls return and the exception when one of
  them raises. Logging, the spinners, and the \<^verbatim>\<open>st.error\<close> of the outer handler
  of \<^verbatim>\<open>get_response\<close> show fixed texts or the text of an exception; they are taken
  to return and are left out.
\<close>

record world =
  session_post :: "nat \<Rightarrow> api_request \<Rightarrow> attempt"
  json_decoder :: "string \<Rightarrow> exn + json"
  value_repr :: "json \<Rightarrow> string"
  show_expanders :: "json \<Rightarrow> string \<Rightarrow> string \<Rightarrow> exn option"
  display_flow_visualization :: "string \<Rightarrow> json \<Rightarrow> json \<Rightarrow> exn option"
  display_chat_message :: "string \<Rightarrow> json \<Rightarrow> exn option"

text \<open>
  \<^verbatim>\<open>len(v)\<close> and \<^verbatim>\<open>v[:200]\<close>, which \<^verbatim>\<open>make_api_call\<close> evaluates for its two
  log lines before it returns. A dict has a length but cannot be sliced (the slice is
  unhashable; from Python 3.12 on the error is a \<^verbatim>\<open>KeyError\<close> instead).
\<close>

definition py_len :: "json \<Rightarrow> exn + nat" where
  "py_len v =
     (case v of
        JStr s \<Rightarrow> Inr (length (str_chars s))
      | JArr xs \<Rightarrow> Inr (length xs)
      | JObj kvs \<Rightarrow> Inr (length kvs)
      | _ \<Rightarrow> Inl TypeError)"

definition slice_200 :: "json \<Rightarrow> exn + json" where
  "slice_200 v =
     (case v of
        JStr s \<Rightarrow> Inr (JStr (concat (take 200 (str_chars s))))
      | JArr xs \<Rightarrow> Inr (JArr (take 200 xs))
      | _ \<Rightarrow> Inl TypeError)"

text \<open>
  The request of \<^verbatim>\<open>make_api_call\<close>: the \<^verbatim>\<open>headers\<close> and \<^verbatim>\<open>data\<close> dicts and
  the arguments of \<^verbatim>\<open>session.post\<close>.
\<close>

definition build_request :: "copilot \<Rightarrow> string \<Rightarrow> string \<Rightarrow> nat \<Rightarrow> api_request" where
  "build_request self system_prompt user_prompt timeout =
     (let headers =
            [(''Authorization'', ''Bearer '' @ api_key self),
             (''Content-Type'', ''application/json''),
             (''User-Agent'', ''SolidityCopilot/1.0'')];
          data =
            JObj
              [(''model'', JStr (model_name self)),
               (''messages'',
                JArr
                  [JObj [(''role'', JStr ''system''), (''content'', JStr system_prompt)],
                   JObj [(''role'', JStr ''user''), (''content'', JStr user_prompt)]]),
               (''temperature'', JNum ''0.7''),
               (''max_tokens'', JNum ''6000''),
               (''stream'', JBool False)];
          endpoint_url = base_url self @ ''/chat/completions''
      in \<lparr>req_url = endpoint_url, req_headers = headers, req_json = data,
          req_timeout = timeout, req_verify = False\<rparr>)"

text \<open>
  \<^verbatim>\<open>make_api_call\<close>. An exception in the \<^verbatim>\<open>try\<close> block is raised again as a plain
  \<^verbatim>\<open>Exception\<close>; a status other than 200 raises one with the status and the body;
  with status 200 the content is read by four subscriptions, each of which may raise.
\<close>

definition make_api_call ::
  "copilot \<Rightarrow> world \<Rightarrow> string \<Rightarrow> string \<Rightarrow> nat \<Rightarrow> api_request list
     \<Rightarrow> (exn + json) \<times> api_request list" where
  "make_api_call self w system_prompt user_prompt timeout calls =
     (let request = build_request self system_prompt user_prompt timeout
      in ((case session_post w (length calls) request of
             Failed api_error \<Rightarrow> Inl (Exception (''API call failed: '' @ api_error))
           | Responded response \<Rightarrow>
               if status_code response = 200 then
                 and_then (body_json response) (\<lambda>response_data.
                 and_then (getitem_key response_data ''choices'') (\<lambda>choices.
                 and_then (getitem_0 choices) (\<lambda>choice.
                 and_then (getitem_key choice ''message'') (\<lambda>message.
                 and_then (getitem_key message ''content'') (\<lambda>content.
                 and_then (py_len content) (\<lambda>n.
                 and_then (slice_200 content) (\<lambda>preview. Inr content)))))))
               else
                 Inl (Exception
                        (''API Error: '' @ str_int (status_code response) @ '' - ''
                           @ body_text response))),
          calls @ [request]))"

text \<open>
  The texts that \<^verbatim>\<open>get_response\<close> builds: the two fixed system prompts of steps 2
  and 3, the f-string \<^verbatim>\<open>improvement_prompt\<close>, the f-string
  \<^verbatim>\<open>all_assumptions\<close>, the banner that ends the returned text, and the text
  returned by the outer handler.
\<close>

definition reviewer_system_prompt :: string where
  "reviewer_system_prompt =
     ''You are a senior Solidity expert specializing in security, gas optimization, and best practices.''"

definition analyst_system_prompt :: string where
  "analyst_system_prompt =
     ''You are a Solidity code analyst who identifies assumptions and design decisions in smart contract code.''"

definition improvement_prompt :: "(json \<Rightarrow> string) \<Rightarrow> string \<Rightarrow> json \<Rightarrow> string" where
  \<open>improvement_prompt py_repr user_input primary_response =
     ''Please review and improve the following Solidity code. Focus on:\<newline>''
       @ ''\<newline>''
       @ ''1. **Technical Accuracy**: Ensure the code is correct, complete, and follows best practices\<newline>''
       @ ''2. **Security**: Identify and fix any security vulnerabilities\<newline>''
       @ ''3. **Gas Optimization**: Optimize for gas efficiency where possible\<newline>''
       @ ''4. **Code Quality**: Improve readability, documentation, and structure\<newline>''
       @ ''\<newline>''
       @ ''Original Request: ''
       @ user_input
       @ ''\<newline>''
       @ ''\<newline>''
       @ ''Generated Code:\<newline>''
       @ py_str py_repr primary_response
       @ ''\<newline>''
       @ ''\<newline>''
       @ ''Please provide an improved version of the code that addresses any issues you find. If the code is already excellent, provide it with minor improvements or additional comments.''\<close>

definition all_assumptions :: "string \<Rightarrow> string \<Rightarrow> string" where
  "all_assumptions technical_assumptions security_assumptions =
     ''\<newline>## '' @ [CHR 0xF0, CHR 0x9F, CHR 0x93, CHR 0x8B]
       @ '' **All Assumptions Made in Final Code**\<newline>\<newline>''
       @ ''### '' @ [CHR 0xF0, CHR 0x9F, CHR 0x94, CHR 0xA7]
       @ '' **Technical Assumptions in Code**\<newline>''
       @ technical_assumptions
       @ ''\<newline>\<newline>### ''
       @ [CHR 0xF0, CHR 0x9F, CHR 0x9B, CHR 0xA1, CHR 0xEF, CHR 0xB8, CHR 0x8F]
       @ '' **Security Assumptions in Code**\<newline>''
       @ security_assumptions @ '' ''"

definition completion_banner :: string where
  "completion_banner =
     ''---\<newline>*Two-Call Architecture Complete* - This response has been improved with comprehensive review covering technical accuracy, security, gas optimization, and best practices. All assumptions made in the final code that weren't explicitly specified by the user are documented above.''"

definition technical_error_marker :: string where
  "technical_error_marker = ''Error extracting technical assumptions from code analysis''"

definition security_error_marker :: string where
  "security_error_marker = ''Error extracting security assumptions from code analysis''"

definition apology :: string where
  "apology = ''Sorry, I encountered an error. Please try again.''"

text \<open>
  What \<^verbatim>\<open>get_response\<close> displays between step 3 and its \<^verbatim>\<open>return\<close>: the two
  expanders, then the read of \<^verbatim>\<open>st.session_state.show_flow_visualization\<close>, which
  is an \<^verbatim>\<open>AttributeError\<close> when the key is absent (\<open>flow_setting\<close> is that
  entry of the session state), then the flow visualization when the setting is on. All
  of it is inside the outer \<^verbatim>\<open>try\<close> and outside the inner one.
\<close>

definition display_results ::
  "world \<Rightarrow> bool option \<Rightarrow> string \<Rightarrow> json \<Rightarrow> json \<Rightarrow> string \<Rightarrow> string \<Rightarrow> exn + unit" where
  "display_results w flow_setting user_input primary_response improved_response
     technical_assumptions security_assumptions =
     (case show_expanders w improved_response technical_assumptions security_assumptions of
        Some e \<Rightarrow> Inl e
      | None \<Rightarrow>
          (case flow_setting of
             None \<Rightarrow> Inl AttributeError
           | Some enabled \<Rightarrow>
               if enabled then
                 (case display_flow_visualization w user_input primary_response
                         improved_response of
                    Some e \<Rightarrow> Inl e
                  | None \<Rightarrow> Inr ())
               else Inr ()))"

text \<open>
  \<^verbatim>\<open>get_response\<close>. The body of the outer \<^verbatim>\<open>try\<close> is the pair
  \<open>(result, calls)\<close>; its handler \<^verbatim>\<open>except Exception\<close> turns every exception
  into the apology. In the three-call branch the inner \<^verbatim>\<open>try\<close> covers the third
  call and the parsing, and its handler sets the two markers; the display of the
  results follows, and an exception raised there reaches the outer handler. The calls
  without a \<^verbatim>\<open>timeout\<close> argument use the default of the signature, 30.
\<close>

definition get_response ::
  "copilot \<Rightarrow> world \<Rightarrow> bool option \<Rightarrow> string \<Rightarrow> bool \<Rightarrow> bool
     \<Rightarrow> (exn + json) \<times> api_request list" where
  "get_response self w flow_setting user_input use_two_call use_three_call =
     (let system_prompt = get_solidity_expert_prompt;
          (result, calls) =
            (if \<not> use_two_call \<and> \<not> use_three_call then
               make_api_call self w system_prompt user_input 30 []
             else if use_three_call then
               (case make_api_call self w system_prompt user_input 30 [] of
                  (Inl e, calls1) \<Rightarrow> (Inl e, calls1)
                | (Inr primary_response, calls1) \<Rightarrow>
                    (case make_api_call self w reviewer_system_prompt
                            (improvement_prompt (value_repr w) user_input primary_response)
                            45 calls1 of
                       (Inl e, calls2) \<Rightarrow> (Inl e, calls2)
                     | (Inr improved_response, calls2) \<Rightarrow>
                         (let (extracted, calls3) =
                                (case make_api_call self w analyst_system_prompt
                                        (get_assumptions_prompt (value_repr w) user_input
                                           improved_response)
                                        30 calls2 of
                                   (Inl e, calls3) \<Rightarrow> (Inl e, calls3)
                                 | (Inr assumptions_response, calls3) \<Rightarrow>
                                     (parse_assumptions_response (json_decoder w)
                                        assumptions_response,
                                      calls3));
                              (technical_assumptions, security_assumptions) =
                                (case extracted of
                                   Inl e \<Rightarrow> (technical_error_marker, security_error_marker)
                                 | Inr parsed \<Rightarrow> parsed)
                          in (and_then
                                (display_results w flow_setting user_input primary_response
                                   improved_response technical_assumptions
                                   security_assumptions)
                                (\<lambda>displayed.
                                   Inr (JStr
                                          (py_str (value_repr w) improved_response
                                             @ newline @ newline
                                             @ all_assumptions technical_assumptions
                                                 security_assumptions
                                             @ newline @ newline
                                             @ completion_banner))),
                              calls3))))
             else make_api_call self w system_prompt user_input 30 [])
      in ((case result of Inl e \<Rightarrow> Inr (JStr apology) | Inr v \<Rightarrow> Inr v), calls))"

text \<open>
  The page. \<^verbatim>\<open>st.session_state\<close> is a store in which a key may be absent;
  \<^verbatim>\<open>initialize_session_state\<close> fills the absent ones. A message is a pair of its
  role and its content.
\<close>

record session_state =
  messages :: "(string \<times> json) list option"
  chat_history :: "json list option"
  use_two_call :: "bool option"
  use_three_call :: "bool option"
  verification_details :: "json list option"
  show_flow_visualization :: "bool option"

definition initialize_session_state :: "session_state \<Rightarrow> session_state" where
  "initialize_session_state ss =
     ss\<lparr>messages := (case messages ss of None \<Rightarrow> Some [] | Some m \<Rightarrow> Some m),
        chat_history := (case chat_history ss of None \<Rightarrow> Some [] | Some h \<Rightarrow> Some h),
        use_two_call := (case use_two_call ss of None \<Rightarrow> Some False | Some b \<Rightarrow> Some b),
        use_three_call := (case use_three_call ss of None \<Rightarrow> Some True | Some b \<Rightarrow> Some b),
        verification_details :=
          (case verification_details ss of None \<Rightarrow> Some [] | Some d \<Rightarrow> Some d),
        show_flow_visualization :=
          (case show_flow_visualization ss of None \<Rightarrow> Some True | Some b \<Rightarrow> Some b)\<rparr>"

text \<open>
  What the widgets report in one run of the script: each button whether it was
  pressed, the chat input its text or \<^verbatim>\<open>None\<close>.
\<close>

record widgets =
  clear_chat :: bool
  registry_button :: bool
  vault_button :: bool
  staking_button :: bool
  marketplace_button :: bool
  escrow_button :: bool
  rewards_button :: bool
  chat_input :: "string option"

text \<open>
  The block that \<^verbatim>\<open>main\<close> repeats under each quick-start button and under the chat
  input: the prompt is appended to the messages and displayed, \<^verbatim>\<open>get_response\<close> is
  called with the two flags read from the session state, and its result is appended
  and displayed. Reading an absent key is an \<^verbatim>\<open>AttributeError\<close>. The session
  state is ambient in the source, so \<^verbatim>\<open>get_response\<close> finds in it the setting
  that it reads. The state that a run leaves behind when it raises is not modelled.
\<close>

definition chat_turn ::
  "copilot \<Rightarrow> world \<Rightarrow> session_state \<Rightarrow> string
     \<Rightarrow> (exn + session_state) \<times> api_request list" where
  "chat_turn copilot w ss prompt =
     (case messages ss of
        None \<Rightarrow> (Inl AttributeError, [])
      | Some ms \<Rightarrow>
          (case display_chat_message w ''user'' (JStr prompt) of
             Some e \<Rightarrow> (Inl e, [])
           | None \<Rightarrow>
               (case use_two_call ss of
                  None \<Rightarrow> (Inl AttributeError, [])
                | Some two \<Rightarrow>
                    (case use_three_call ss of
                       None \<Rightarrow> (Inl AttributeError, [])
                     | Some three \<Rightarrow>
                         (case get_response copilot w (show_flow_visualization ss) prompt
                                 two three of
                            (Inl e, calls) \<Rightarrow> (Inl e, calls)
                          | (Inr response, calls) \<Rightarrow>
                              (case display_chat_message w ''assistant'' response of
                                 Some e \<Rightarrow> (Inl e, calls)
                               | None \<Rightarrow>
                                   (Inr (ss\<lparr>messages :=
                                             Some (ms @ [(''user'', JStr prompt),
                                                         (''assistant'', response)])\<rparr>),
                                    calls)))))))"

text \<open>The loop that displays the chat history: it stops at the first call that raises.\<close>

fun display_history :: "world \<Rightarrow> (string \<times> json) list \<Rightarrow> exn option" where
  "display_history w [] = None"
| "display_history w ((role, content) # ms) =
     (case display_chat_message w role content of
        Some e \<Rightarrow> Some e
      | None \<Rightarrow> display_history w ms)"

text \<open>
  One run of \<^verbatim>\<open>main\<close>, up to the end of the chat column: the session state is
  initialised, the sidebar sets the two flags, and the first widget that reports
  decides the run (\<^verbatim>\<open>st.rerun()\<close> ends the script after a button's block). When
  no button reports, the history is displayed and the chat input is read; it counts
  only when its text is not empty (\<^verbatim>\<open>if prompt := st.chat_input(...)\<close>). The
  session-info column that follows makes no call of \<^verbatim>\<open>get_response\<close> and is left
  out, and so are the header and the fixed texts of the sidebar. \<open>copilot\<close> is the
  object that \<^verbatim>\<open>SolidityCopilot()\<close> returned; a run in which the constructor
  stops the script, for want of an API key, calls nothing after it.
\<close>

definition main ::
  "copilot \<Rightarrow> world \<Rightarrow> widgets \<Rightarrow> session_state
     \<Rightarrow> (exn + session_state) \<times> api_request list" where
  "main copilot w ui ss0 =
     (let ss1 = initialize_session_state ss0;
          ss2 = ss1\<lparr>use_two_call := Some False, use_three_call := Some True\<rparr>
      in if clear_chat ui then
           (Inr (ss2\<lparr>messages := Some [], chat_history := Some [],
                      verification_details := Some []\<rparr>), [])
         else
           (let ss3 = ss2\<lparr>show_flow_visualization := Some True\<rparr>
            in if registry_button ui then
                 chat_turn copilot w ss3
                   ''Create a Registry Style contract for managing Artifacts''
               else if vault_button ui then
                 chat_turn copilot w ss3 ''Create a Vault Contract''
               else if staking_button ui then
                 chat_turn copilot w ss3 ''Create a Staking Contract with yield''
               else if marketplace_button ui then
                 chat_turn copilot w ss3
                   ''Create a Marketplace Contract to allow buying, selling, and trading of in-game assets (NFTs or tokens)''
               else if escrow_button ui then
                 chat_turn copilot w ss3
                   ''Create a Escrow / Prize Pool Contracts to hold funds for tournaments, wagers, or bets until game outcomes are verified''
               else if rewards_button ui then
                 chat_turn copilot w ss3
                   ''Create Reward Distribution Contracts for play-to-earn reward payouts''
               else
                 (case messages ss3 of
                    None \<Rightarrow> (Inl AttributeError, [])
                  | Some ms \<Rightarrow>
                      (case display_history w ms of
                         Some e \<Rightarrow> (Inl e, [])
                       | None \<Rightarrow>
                           (case chat_input ui of
                              None \<Rightarrow> (Inr ss3, [])
                            | Some prompt \<Rightarrow>
                                if prompt \<noteq> [] then chat_turn copilot w ss3 prompt
                                else (Inr ss3, []))))))"

section \<open>The vocabulary of the specification\<close>

text \<open>
  The request body that the specification describes:
  \<^verbatim>\<open>{model, messages: [{role: "system", content}, {role: "user", content}],
  temperature: 0.7, max_tokens: 6000, stream: false}\<close>.
\<close>

definition chat_completion_body :: "string \<Rightarrow> string \<Rightarrow> string \<Rightarrow> json" where
  "chat_completion_body model system_content user_content =
     JObj
       [(''model'', JStr model),
        (''messages'',
         JArr
           [JObj [(''role'', JStr ''system''), (''content'', JStr system_content)],
            JObj [(''role'', JStr ''user''), (''content'', JStr user_content)]]),
        (''temperature'', JNum ''0.7''),
        (''max_tokens'', JNum ''6000''),
        (''stream'', JBool False)]"

text \<open>
  The path \<^verbatim>\<open>choices[0].message.content\<close> of a decoded body: the value found
  there, or \<open>None\<close> when the path is absent, that is, when the body is not an object
  with an entry \<^verbatim>\<open>choices\<close>, or that entry is not a list with a first element, or
  that element is not an object with an entry \<^verbatim>\<open>message\<close>, or that entry is not an
  object with an entry \<^verbatim>\<open>content\<close>.
\<close>

definition content_at_path :: "json \<Rightarrow> json option" where
  "content_at_path body =
     (case body of
        JObj entries \<Rightarrow>
          (case map_of entries ''choices'' of
             Some (JArr (JObj choice # others)) \<Rightarrow>
               (case map_of choice ''message'' of
                  Some (JObj message) \<Rightarrow> map_of message ''content''
                | _ \<Rightarrow> None)
           | _ \<Rightarrow> None)
      | _ \<Rightarrow> None)"

text \<open>
  The entries of one of the three arrays of a decoded reply: \<open>has_lines d key ls\<close>
  holds when the key is missing and \<open>ls\<close> is empty, or the key holds the list of
  the texts \<open>ls\<close>.
\<close>

definition has_lines :: "(string \<times> json) list \<Rightarrow> string \<Rightarrow> string list \<Rightarrow> bool" where
  "has_lines d key ls =
     (case map_of d key of
        None \<Rightarrow> ls = []
      | Some v \<Rightarrow> v = JArr (map JStr ls))"

text \<open>
  An entry of a decoded reply that \<^verbatim>\<open>"\n".join\<close> accepts: \<open>joinable d key\<close>
  holds when the key is missing, or holds a list of texts, a text, or an object.
\<close>

definition is_text :: "json \<Rightarrow> bool" where
  "is_text v = (case v of JStr s \<Rightarrow> True | _ \<Rightarrow> False)"

definition joinable :: "(string \<times> json) list \<Rightarrow> string \<Rightarrow> bool" where
  "joinable d key =
     (case map_of d key of
        None \<Rightarrow> True
      | Some v \<Rightarrow>
          (case v of
             JArr vs \<Rightarrow> list_all is_text vs
           | JStr s \<Rightarrow> True
           | JObj kvs \<Rightarrow> True
           | _ \<Rightarrow> False))"

section \<open>Concrete runs\<close>

text \<open>
  A scripted network answers the \<open>n\<close>-th request of a turn with the \<open>n\<close>-th
  outcome of a list and refuses the connection after that; in a scripted world
  Streamlit displays everything without raising. A response carries its
  body as text, decoded by \<open>json_loads\<close>; \<open>completion c\<close> is the body of a chat
  completion whose content is the text \<open>c\<close> (one without quotes or backslashes).
\<close>

definition http_response :: "int \<Rightarrow> string \<Rightarrow> attempt" where
  "http_response status body =
     Responded \<lparr>status_code = status, body_text = body, body_json = json_loads body\<rparr>"

definition completion :: "string \<Rightarrow> string" where
  \<open>completion c =
     ''{"choices":[{"message":{"role":"assistant","content":"'' @ c @ ''"}}]}''\<close>

definition scripted :: "attempt list \<Rightarrow> world" where
  "scripted outcomes =
     \<lparr>session_post =
        (\<lambda>n request. if n < length outcomes then outcomes ! n
                      else Failed ''Connection refused''),
      json_decoder = json_loads,
      value_repr = (\<lambda>v. ''<value>''),
      show_expanders = (\<lambda>improved technical security. None),
      display_flow_visualization = (\<lambda>user_input primary improved. None),
      display_chat_message = (\<lambda>role content. None)\<rparr>"

text \<open>A world in which the two expanders raise, as when \<^verbatim>\<open>st.table\<close> refuses its rows.\<close>

definition with_failing_table :: "world \<Rightarrow> world" where
  "with_failing_table w =
     w\<lparr>show_expanders := (\<lambda>improved technical security. Some ValueError)\<rparr>"

definition demo_copilot :: copilot where
  "demo_copilot =
     \<lparr>api_key = ''fw_key'',
      base_url = ''https://api.fireworks.ai/inference/v1'',
      model_name = ''accounts/sentientfoundation/loadBalancers/gpt-oss-120b''\<rparr>"

definition empty_session :: session_state where
  "empty_session =
     \<lparr>messages = None, chat_history = None, use_two_call = None, use_three_call = None,
      verification_details = None, show_flow_visualization = None\<rparr>"

definition idle :: widgets where
  "idle =
     \<lparr>clear_chat = False, registry_button = False, vault_button = False,
      staking_button = False, marketplace_button = False, escrow_button = False,
      rewards_button = False, chat_input = None\<rparr>"

text \<open>What the body \<open>completion c\<close> decodes to.\<close>

definition decoded_completion :: "string \<Rightarrow> json" where
  "decoded_completion c =
     JObj [(''choices'',
            JArr [JObj [(''message'',
                         JObj [(''role'', JStr ''assistant''), (''content'', JStr c)])]])]"

text \<open>
  Two drafts of a contract, the replies of steps 1 and 2 in the runs below, and the
  prompt of the second quick-start button.
\<close>

definition draft :: string where
  "draft = ''contract Vault { }''"

definition reviewed :: string where
  "reviewed = ''contract Vault { address owner; }''"

definition vault_prompt :: string where
  "vault_prompt = ''Create a Vault Contract''"

section \<open>Properties of the prompt library\<close>

subsection \<open>Auxiliary facts\<close>

lemma and_then_Inl [simp]: "and_then (Inl e) f = Inl e"
  by (simp add: and_then_def)

lemma and_then_Inr [simp]: "and_then (Inr x) f = f x"
  by (simp add: and_then_def)

lemma and_then_eq_Inl:
  "and_then m f = Inl e \<longleftrightarrow> m = Inl e \<or> (\<exists>x. m = Inr x \<and> f x = Inl e)"
  by (cases m) auto

lemma str_items_map_JStr [simp]: "str_items (map JStr ls) = Some ls"
  by (induction ls) auto

lemma join_lines_texts [simp]: "join_lines (JArr (map JStr ls)) = Inr (str_join newline ls)"
  by (simp add: join_lines_def)

lemma join_lines_empty [simp]: "join_lines (JArr []) = Inr []"
  by (simp add: join_lines_def)

lemma join_lines_error: "join_lines v = Inl e \<Longrightarrow> e = TypeError"
  by (auto simp: join_lines_def split: json.splits option.splits)

lemma dict_get_error:
  "dict_get d k dflt = Inl e \<Longrightarrow> e = AttributeError \<and> (\<forall>kvs. d \<noteq> JObj kvs)"
  by (auto simp: dict_get_def split: json.splits)

lemma dict_get_Inr: "dict_get d k dflt = Inr v \<Longrightarrow> \<exists>kvs. d = JObj kvs"
  by (auto simp: dict_get_def split: json.splits)

lemma parse_decode_error:
  "loads s = Inl JSONDecodeError \<Longrightarrow>
   parse_assumptions_response loads (JStr s) =
     Inr (''Failed to parse assumptions as JSON'', ''Failed to parse assumptions as JSON'')"
  by (simp add: parse_assumptions_response_def)

lemma parse_object:
  assumes "loads s = Inr (JObj d)"
    and "has_lines d ''technical_assumptions'' ts"
    and "has_lines d ''security_assumptions'' ss"
    and "has_lines d ''implementation_assumptions'' imps"
  shows "parse_assumptions_response loads (JStr s) =
           Inr (if str_join newline imps = [] then str_join newline ts
                else str_join newline ts @ newline @ newline
                       @ ''Implementation Assumptions:'' @ newline @ str_join newline imps,
                str_join newline ss)"
  using assms
  by (auto simp: parse_assumptions_response_def has_lines_def dict_get_def
      split: option.splits)

lemma loads_not_json: "json_loads ''not json'' = Inl JSONDecodeError"
  by code_simp

lemma loads_empty_list: "json_loads ''[]'' = Inr (JArr [])"
  by code_simp

lemma loads_empty_object: "json_loads ''{}'' = Inr (JObj [])"
  by code_simp

lemma parse_empty_list:
  "parse_assumptions_response json_loads (JStr ''[]'') = Inl AttributeError"
  by (simp add: parse_assumptions_response_def loads_empty_list dict_get_def)

lemma str_items_texts: "str_items vs = None \<longleftrightarrow> \<not> list_all is_text vs"
  by (induction vs rule: str_items.induct) (auto simp: is_text_def)

lemma join_list_of_texts:
  assumes "list_all is_text vs"
  shows "\<exists>joined. join_lines (JArr vs) = Inr joined"
proof -
  from assms have "str_items vs \<noteq> None"
    by (simp add: str_items_texts)
  then show ?thesis
    by (auto simp: join_lines_def)
qed

lemma join_list_with_other:
  assumes "\<not> list_all is_text vs"
  shows "join_lines (JArr vs) = Inl TypeError"
proof -
  from assms have "str_items vs = None"
    by (simp add: str_items_texts)
  then show ?thesis
    by (simp add: join_lines_def)
qed

lemma join_entry_joinable:
  assumes "joinable d key"
  shows "\<exists>joined. and_then (dict_get (JObj d) key (JArr [])) join_lines = Inr joined"
proof (cases "map_of d key")
  case None
  then show ?thesis
    by (simp add: dict_get_def)
next
  case (Some v)
  with assms show ?thesis
    using join_list_of_texts
    by (cases v) (auto simp: joinable_def dict_get_def join_lines_def)
qed

lemma join_entry_not_joinable:
  assumes "\<not> joinable d key"
  shows "and_then (dict_get (JObj d) key (JArr [])) join_lines = Inl TypeError"
proof (cases "map_of d key")
  case None
  with assms show ?thesis
    by (simp add: joinable_def)
next
  case (Some v)
  with assms show ?thesis
    using join_list_with_other
    by (cases v) (auto simp: joinable_def dict_get_def join_lines_def)
qed

lemma dict_get_object:
  "dict_get (JObj d) key dflt = Inr (case map_of d key of None \<Rightarrow> dflt | Some v \<Rightarrow> v)"
  by (simp add: dict_get_def)

lemma parse_on_object:
  assumes "loads s = Inr (JObj d)"
  shows "parse_assumptions_response loads (JStr s) =
           and_then (and_then (dict_get (JObj d) ''technical_assumptions'' (JArr [])) join_lines)
             (\<lambda>technical.
           and_then (and_then (dict_get (JObj d) ''security_assumptions'' (JArr [])) join_lines)
             (\<lambda>security.
           and_then (and_then (dict_get (JObj d) ''implementation_assumptions'' (JArr []))
                       join_lines)
             (\<lambda>implementation.
               Inr (if implementation \<noteq> []
                    then technical @ newline @ newline @ ''Implementation Assumptions:''
                           @ newline @ implementation
                    else technical,
                    security))))"
proof -
  have never_decode_error: "join_lines v \<noteq> Inl JSONDecodeError" for v
    using join_lines_error [of v JSONDecodeError] by auto
  show ?thesis
    using assms never_decode_error
    by (auto simp: parse_assumptions_response_def dict_get_object and_then_def
        split: sum.splits)
qed

lemma parse_decoder_raises:
  assumes "loads s = Inl e" and "e \<noteq> JSONDecodeError"
  shows "parse_assumptions_response loads (JStr s) = Inl e"
  using assms by (simp add: parse_assumptions_response_def)

lemma parse_not_object:
  assumes "loads s = Inr v" and "\<forall>d. v \<noteq> JObj d"
  shows "parse_assumptions_response loads (JStr s) = Inl AttributeError"
  using assms
  by (cases v) (simp_all add: parse_assumptions_response_def dict_get_def)

lemma parse_joinable:
  assumes "loads s = Inr (JObj d)"
    and "joinable d ''technical_assumptions''"
    and "joinable d ''security_assumptions''"
    and "joinable d ''implementation_assumptions''"
  shows "\<exists>parsed. parse_assumptions_response loads (JStr s) = Inr parsed"
proof -
  from join_entry_joinable [OF assms(2)] join_entry_joinable [OF assms(3)]
    join_entry_joinable [OF assms(4)]
  obtain technical security implementation where
    "and_then (dict_get (JObj d) ''technical_assumptions'' (JArr [])) join_lines
       = Inr technical"
    "and_then (dict_get (JObj d) ''security_assumptions'' (JArr [])) join_lines
       = Inr security"
    "and_then (dict_get (JObj d) ''implementation_assumptions'' (JArr [])) join_lines
       = Inr implementation"
    by blast
  then show ?thesis
    by (simp add: parse_on_object [of loads s d, OF assms(1)])
qed

lemma parse_not_joinable:
  assumes "loads s = Inr (JObj d)"
    and "\<not> (joinable d ''technical_assumptions''
             \<and> joinable d ''security_assumptions''
             \<and> joinable d ''implementation_assumptions'')"
  shows "parse_assumptions_response loads (JStr s) = Inl TypeError"
proof -
  have entry: "and_then (dict_get (JObj d) key (JArr [])) join_lines = Inl TypeError
      \<or> (\<exists>joined. and_then (dict_get (JObj d) key (JArr [])) join_lines = Inr joined)"
    for key
    using join_entry_joinable [of d key] join_entry_not_joinable [of d key] by blast
  show ?thesis
  proof (cases "joinable d ''technical_assumptions''")
    case False
    then show ?thesis
      by (simp add: parse_on_object [of loads s d, OF assms(1)] join_entry_not_joinable)
  next
    case technical: True
    then obtain t where t:
      "and_then (dict_get (JObj d) ''technical_assumptions'' (JArr [])) join_lines = Inr t"
      using join_entry_joinable by blast
    show ?thesis
    proof (cases "joinable d ''security_assumptions''")
      case False
      then show ?thesis
        by (simp add: parse_on_object [of loads s d, OF assms(1)] t join_entry_not_joinable)
    next
      case True
      then obtain s' where s':
        "and_then (dict_get (JObj d) ''security_assumptions'' (JArr [])) join_lines = Inr s'"
        using join_entry_joinable by blast
      from technical True assms(2) have "\<not> joinable d ''implementation_assumptions''"
        by simp
      then show ?thesis
        by (simp add: parse_on_object [of loads s d, OF assms(1)] t s' join_entry_not_joinable)
    qed
  qed
qed

lemma loads_text_entry:
  \<open>json_loads ''{"technical_assumptions":"ab"}''
     = Inr (JObj [(''technical_assumptions'', JStr ''ab'')])\<close>
  by code_simp

lemma loads_number_entry:
  \<open>json_loads ''{"technical_assumptions":[1]}''
     = Inr (JObj [(''technical_assumptions'', JArr [JNum ''1''])])\<close>
  by code_simp

subsection \<open>Replies that do not decode\<close>

text \<open>
  Claim C4, as the code has it. A reply whose decoding fails with a decode error never
  makes \<open>parse_assumptions_response\<close> raise: both fields are the fixed text
  \<^verbatim>\<open>Failed to parse assumptions as JSON\<close>. The function also returns when the
  reply decodes to an object in which each of the three entries is missing or is a
  list of texts, a text or an object. In every other case it raises: the exception of
  the decoder when that is not a decode error, an \<^verbatim>\<open>AttributeError\<close> when the
  decoded value is not an object, and a \<^verbatim>\<open>TypeError\<close> when it is an object with an
  entry of another kind. The five cases cover every outcome of the decoder.
\<close>

theorem parse_assumptions_returns_or_raises:
  "(loads reply = Inl JSONDecodeError \<longrightarrow>
      parse_assumptions_response loads (JStr reply) =
        Inr (''Failed to parse assumptions as JSON'', ''Failed to parse assumptions as JSON''))
   \<and> (loads reply = Inl e \<and> e \<noteq> JSONDecodeError \<longrightarrow>
        parse_assumptions_response loads (JStr reply) = Inl e)
   \<and> (loads reply = Inr v \<and> (\<forall>d. v \<noteq> JObj d) \<longrightarrow>
        parse_assumptions_response loads (JStr reply) = Inl AttributeError)
   \<and> (loads reply = Inr (JObj d)
        \<and> joinable d ''technical_assumptions''
        \<and> joinable d ''security_assumptions''
        \<and> joinable d ''implementation_assumptions'' \<longrightarrow>
        (\<exists>parsed. parse_assumptions_response loads (JStr reply) = Inr parsed))
   \<and> (loads reply = Inr (JObj d)
        \<and> \<not> (joinable d ''technical_assumptions''
               \<and> joinable d ''security_assumptions''
               \<and> joinable d ''implementation_assumptions'') \<longrightarrow>
        parse_assumptions_response loads (JStr reply) = Inl TypeError)"
  using parse_decode_error [of loads reply]
    parse_decoder_raises [of loads reply e]
    parse_not_object [of loads reply v]
    parse_joinable [of loads reply d]
    parse_not_joinable [of loads reply d]
  by blast

text \<open>
  The theorem at five replies: \<^verbatim>\<open>not json\<close> does not decode; a decoder that
  reaches its recursion limit raises \<^verbatim>\<open>RecursionError\<close>; \<^verbatim>\<open>[]\<close> decodes to a
  list; in \<^verbatim>\<open>{"technical_assumptions":"ab"}\<close> the only entry is a text, which is
  joined character by character; in \<^verbatim>\<open>{"technical_assumptions":[1]}\<close> the list
  holds a number.
\<close>

theorem parse_assumptions_returns_or_raises_witness:
  \<open>parse_assumptions_response json_loads (JStr ''not json'') =
       Inr (''Failed to parse assumptions as JSON'', ''Failed to parse assumptions as JSON'')
   \<and> parse_assumptions_response (\<lambda>s. Inl RecursionError) (JStr ''[[[['') =
       Inl RecursionError
   \<and> parse_assumptions_response json_loads (JStr ''[]'') = Inl AttributeError
   \<and> (\<exists>parsed. parse_assumptions_response json_loads
                   (JStr ''{"technical_assumptions":"ab"}'') = Inr parsed)
   \<and> parse_assumptions_response json_loads (JStr ''{"technical_assumptions":"ab"}'') =
       Inr (''a\<newline>b'', [])
   \<and> parse_assumptions_response json_loads (JStr ''{"technical_assumptions":[1]}'') =
       Inl TypeError\<close>
proof -
  let ?text_entry = "[(''technical_assumptions'', JStr ''ab'')]"
  let ?number_entry = "[(''technical_assumptions'', JArr [JNum ''1''])]"
  have text_entry: "joinable ?text_entry ''technical_assumptions''"
    "joinable ?text_entry ''security_assumptions''"
    "joinable ?text_entry ''implementation_assumptions''"
    by (simp_all add: joinable_def)
  have number_entry: "\<not> joinable ?number_entry ''technical_assumptions''"
    by (simp add: joinable_def is_text_def)
  have "parse_assumptions_response json_loads (JStr ''not json'') =
       Inr (''Failed to parse assumptions as JSON'', ''Failed to parse assumptions as JSON'')"
    using parse_assumptions_returns_or_raises [of json_loads "''not json''"]
      loads_not_json by blast
  moreover have "parse_assumptions_response (\<lambda>s. Inl RecursionError) (JStr ''[[[['') =
       Inl RecursionError"
    using parse_assumptions_returns_or_raises
      [of "\<lambda>s. Inl RecursionError" "''[[[[''" RecursionError]
    by simp
  moreover have "parse_assumptions_response json_loads (JStr ''[]'') = Inl AttributeError"
    using parse_assumptions_returns_or_raises [of json_loads "''[]''" _ "JArr []"]
      loads_empty_list by simp
  moreover have \<open>\<exists>parsed. parse_assumptions_response json_loads
                   (JStr ''{"technical_assumptions":"ab"}'') = Inr parsed\<close>
    using parse_assumptions_returns_or_raises
      [of json_loads \<open>''{"technical_assumptions":"ab"}''\<close> _ _ ?text_entry]
      loads_text_entry text_entry by blast
  moreover have \<open>parse_assumptions_response json_loads
      (JStr ''{"technical_assumptions":"ab"}'') = Inr (''a\<newline>b'', [])\<close>
    by code_simp
  moreover have \<open>parse_assumptions_response json_loads
      (JStr ''{"technical_assumptions":[1]}'') = Inl TypeError\<close>
    using parse_assumptions_returns_or_raises
      [of json_loads \<open>''{"technical_assumptions":[1]}''\<close> _ _ ?number_entry]
      loads_number_entry number_entry by blast
  ultimately show ?thesis
    by blast
qed

text \<open>
  The claim as the specification words it (the function returns for every input) fails
  on the reply \<^verbatim>\<open>[]\<close>: it is valid JSON, the decoded list has no method
  \<^verbatim>\<open>get\<close>, and the handler of \<open>parse_assumptions_response\<close> catches decode
  errors only, so the \<^verbatim>\<open>AttributeError\<close> leaves the function.
\<close>

theorem parse_assumptions_raises_on_list:
  "parse_assumptions_response json_loads (JStr ''[]'') = Inl AttributeError"
  by code_simp

subsection \<open>Replies that decode to an object\<close>

text \<open>
  Claim C5. When the reply decodes to an object in which each of the three arrays is
  missing or a list of texts, the entries of each array are joined with newlines
  (a missing array counts as empty), the security field is the joined security
  entries, and the technical field is the joined technical entries, followed by a
  blank line, the label \<^verbatim>\<open>Implementation Assumptions:\<close> and the joined
  implementation entries when that joined text is not empty. With no implementation
  entries nothing is appended. The reply of the specification's example gives
  \<^verbatim>\<open>a\n\nImplementation Assumptions:\nc\<close> and \<^verbatim>\<open>b\<close>.
\<close>

theorem parse_assumptions_joins_arrays:
  assumes "loads reply = Inr (JObj d)"
    and "has_lines d ''technical_assumptions'' ts"
    and "has_lines d ''security_assumptions'' ss"
    and "has_lines d ''implementation_assumptions'' imps"
  shows \<open>parse_assumptions_response loads (JStr reply) =
           Inr (if str_join newline imps = [] then str_join newline ts
                else str_join newline ts @ ''\<newline>\<newline>Implementation Assumptions:\<newline>''
                       @ str_join newline imps,
                str_join newline ss)
         \<and> (imps = [] \<longrightarrow>
              parse_assumptions_response loads (JStr reply) =
                Inr (str_join newline ts, str_join newline ss))
         \<and> parse_assumptions_response json_loads
              (JStr ''{"technical_assumptions":["a"],"security_assumptions":["b"],"implementation_assumptions":["c"]}'')
            = Inr (''a\<newline>\<newline>Implementation Assumptions:\<newline>c'', ''b'')\<close>
proof (intro conjI impI)
  show general: "parse_assumptions_response loads (JStr reply) =
           Inr (if str_join newline imps = [] then str_join newline ts
                else str_join newline ts @ ''\<newline>\<newline>Implementation Assumptions:\<newline>''
                       @ str_join newline imps,
                str_join newline ss)"
    using parse_object [of loads reply d ts ss imps, OF assms] by (simp add: newline_def)
  show "parse_assumptions_response loads (JStr reply) =
          Inr (str_join newline ts, str_join newline ss)" if "imps = []"
    using general that by simp
  show \<open>parse_assumptions_response json_loads
          (JStr ''{"technical_assumptions":["a"],"security_assumptions":["b"],"implementation_assumptions":["c"]}'')
        = Inr (''a\<newline>\<newline>Implementation Assumptions:\<newline>c'', ''b'')\<close>
    by code_simp
qed

text \<open>
  The theorem at a reply with two technical entries, an empty security array and no
  implementation array.
\<close>

lemma loads_two_entries:
  \<open>json_loads ''{"technical_assumptions": ["Owner is trusted", "Token is ERC20"], "security_assumptions": []}''
     = Inr (JObj [(''technical_assumptions'', JArr [JStr ''Owner is trusted'', JStr ''Token is ERC20'']),
                  (''security_assumptions'', JArr [])])\<close>
  by code_simp

theorem parse_assumptions_joins_arrays_witness:
  \<open>json_loads ''{"technical_assumptions": ["Owner is trusted", "Token is ERC20"], "security_assumptions": []}''
     = Inr (JObj [(''technical_assumptions'', JArr [JStr ''Owner is trusted'', JStr ''Token is ERC20'']),
                  (''security_assumptions'', JArr [])])
   \<and> parse_assumptions_response json_loads
         (JStr ''{"technical_assumptions": ["Owner is trusted", "Token is ERC20"], "security_assumptions": []}'')
       = Inr (''Owner is trusted\<newline>Token is ERC20'', [])\<close>
proof -
  let ?d = "[(''technical_assumptions'', JArr [JStr ''Owner is trusted'', JStr ''Token is ERC20'']),
             (''security_assumptions'', JArr [])]"
  have technical: "has_lines ?d ''technical_assumptions'' [''Owner is trusted'', ''Token is ERC20'']"
    and security: "has_lines ?d ''security_assumptions'' []"
    and implementation: "has_lines ?d ''implementation_assumptions'' []"
    by (simp_all add: has_lines_def)
  from parse_assumptions_joins_arrays [of json_loads _ ?d _ "[]" "[]",
      OF loads_two_entries technical security implementation]
  show ?thesis
    using loads_two_entries by (simp add: newline_def)
qed

section \<open>Properties of the transport client\<close>

subsection \<open>Auxiliary facts\<close>

lemma make_api_call_calls:
  "snd (make_api_call self w system_prompt user_prompt timeout calls) =
     calls @ [build_request self system_prompt user_prompt timeout]"
  by (simp add: make_api_call_def Let_def)

lemma content_absent:
  assumes "content_at_path d = None"
  shows "\<exists>e. and_then (getitem_key d ''choices'') (\<lambda>choices.
              and_then (getitem_0 choices) (\<lambda>choice.
              and_then (getitem_key choice ''message'') (\<lambda>message.
              and_then (getitem_key message ''content'') f))) = Inl e
            \<and> (e = KeyError \<or> e = IndexError \<or> e = TypeError)"
  using assms
  by (auto simp: content_at_path_def getitem_key_def getitem_0_def
      split: json.splits option.splits list.splits)

lemma content_present:
  assumes "content_at_path d = Some c"
  shows "and_then (getitem_key d ''choices'') (\<lambda>choices.
           and_then (getitem_0 choices) (\<lambda>choice.
           and_then (getitem_key choice ''message'') (\<lambda>message.
           and_then (getitem_key message ''content'') f))) = f c"
  using assms
  by (auto simp: content_at_path_def getitem_key_def getitem_0_def
      split: json.splits option.splits list.splits)

lemma make_api_call_failed:
  assumes "session_post w (length calls) (build_request self sp up t) = Failed m"
  shows "fst (make_api_call self w sp up t calls) = Inl (Exception (''API call failed: '' @ m))"
  using assms by (simp add: make_api_call_def Let_def)

lemma make_api_call_status:
  assumes "session_post w (length calls) (build_request self sp up t) = Responded r"
    and "status_code r \<noteq> 200"
  shows "fst (make_api_call self w sp up t calls) =
           Inl (Exception (''API Error: '' @ str_int (status_code r) @ '' - '' @ body_text r))"
  using assms by (simp add: make_api_call_def Let_def)

lemma make_api_call_absent:
  assumes "session_post w (length calls) (build_request self sp up t) = Responded r"
    and "status_code r = 200" and "body_json r = Inr d" and "content_at_path d = None"
  shows "\<exists>e. fst (make_api_call self w sp up t calls) = Inl e
            \<and> (e = KeyError \<or> e = IndexError \<or> e = TypeError)"
  using assms content_absent [of d] by (simp add: make_api_call_def Let_def)

lemma make_api_call_text:
  assumes "session_post w (length calls) (build_request self sp up t) = Responded r"
    and "status_code r = 200" and "body_json r = Inr d"
    and "content_at_path d = Some (JStr c)"
  shows "fst (make_api_call self w sp up t calls) = Inr (JStr c)"
  using assms
  by (simp add: make_api_call_def Let_def content_present py_len_def slice_200_def)

lemma make_api_call_eq:
  "make_api_call self w sp up t calls =
     (fst (make_api_call self w sp up t calls), calls @ [build_request self sp up t])"
  by (simp add: make_api_call_def Let_def)

text \<open>Calls against a scripted network.\<close>

lemma scripted_post:
  "session_post (scripted outcomes) n request =
     (if n < length outcomes then outcomes ! n else Failed ''Connection refused'')"
  by (simp add: scripted_def)

lemma content_decoded_completion [simp]:
  "content_at_path (decoded_completion c) = Some (JStr c)"
  by (simp add: content_at_path_def decoded_completion_def)

lemma scripted_completion:
  assumes "length calls < length outcomes"
    and "outcomes ! length calls = http_response 200 body"
    and "json_loads body = Inr (decoded_completion c)"
  shows "make_api_call self (scripted outcomes) sp up t calls =
           (Inr (JStr c), calls @ [build_request self sp up t])"
proof -
  have "session_post (scripted outcomes) (length calls) (build_request self sp up t) =
          Responded \<lparr>status_code = 200, body_text = body,
                     body_json = Inr (decoded_completion c)\<rparr>"
    using assms by (simp add: scripted_post http_response_def)
  then have "fst (make_api_call self (scripted outcomes) sp up t calls) = Inr (JStr c)"
    using make_api_call_text
      [of "scripted outcomes" calls self sp up t _ "decoded_completion c" c] by simp
  then show ?thesis
    using make_api_call_eq [of self "scripted outcomes" sp up t calls] by simp
qed

lemma scripted_status:
  assumes "length calls < length outcomes"
    and "outcomes ! length calls = http_response status body"
    and "status \<noteq> 200"
  shows "make_api_call self (scripted outcomes) sp up t calls =
           (Inl (Exception (''API Error: '' @ str_int status @ '' - '' @ body)),
            calls @ [build_request self sp up t])"
proof -
  have "session_post (scripted outcomes) (length calls) (build_request self sp up t) =
          Responded \<lparr>status_code = status, body_text = body, body_json = json_loads body\<rparr>"
    using assms by (simp add: scripted_post http_response_def)
  then have "fst (make_api_call self (scripted outcomes) sp up t calls) =
               Inl (Exception (''API Error: '' @ str_int status @ '' - '' @ body))"
    using make_api_call_status [of "scripted outcomes" calls self sp up t] assms(3) by simp
  then show ?thesis
    using make_api_call_eq [of self "scripted outcomes" sp up t calls] by simp
qed

lemma scripted_refused:
  assumes "length outcomes \<le> length calls"
  shows "make_api_call self (scripted outcomes) sp up t calls =
           (Inl (Exception ''API call failed: Connection refused''),
            calls @ [build_request self sp up t])"
proof -
  have "session_post (scripted outcomes) (length calls) (build_request self sp up t) =
          Failed ''Connection refused''"
    using assms by (simp add: scripted_post)
  then have "fst (make_api_call self (scripted outcomes) sp up t calls) =
               Inl (Exception (''API call failed: '' @ ''Connection refused''))"
    by (rule make_api_call_failed)
  then show ?thesis
    using make_api_call_eq [of self "scripted outcomes" sp up t calls] by simp
qed

lemma loads_draft: "json_loads (completion draft) = Inr (decoded_completion draft)"
  by code_simp

lemma loads_reviewed: "json_loads (completion reviewed) = Inr (decoded_completion reviewed)"
  by code_simp

lemma loads_reply_object: "json_loads (completion ''{}'') = Inr (decoded_completion ''{}'')"
  by code_simp

lemma loads_reply_list: "json_loads (completion ''[]'') = Inr (decoded_completion ''[]'')"
  by code_simp

lemma loads_reply_text:
  "json_loads (completion ''not json'') = Inr (decoded_completion ''not json'')"
  by code_simp

lemma loads_no_choices:
  \<open>json_loads ''{"choices":[]}'' = Inr (JObj [(''choices'', JArr [])])\<close>
  by code_simp

lemma str_int_503: "str_int 503 = ''503''"
  by code_simp

lemma str_int_429: "str_int 429 = ''429''"
  by code_simp

subsection \<open>The outcomes of one call\<close>

text \<open>
  Claim C6. A call whose request fails in transport raises an exception that carries
  the text of the failure; a response with a status other than 200 raises one that
  carries the status code and the body of the response; both are plain
  \<^verbatim>\<open>Exception\<close> values. A response with status 200 whose decoded body lacks the
  path \<^verbatim>\<open>choices[0].message.content\<close> raises an exception of another kind
  (\<^verbatim>\<open>KeyError\<close>, \<^verbatim>\<open>IndexError\<close> or \<^verbatim>\<open>TypeError\<close>). When the path holds a
  text, the call returns exactly that text.
\<close>

theorem make_api_call_outcomes:
  "(session_post w (length calls) (build_request self system_prompt user_prompt timeout)
      = Failed m \<longrightarrow>
    fst (make_api_call self w system_prompt user_prompt timeout calls) =
      Inl (Exception (''API call failed: '' @ m)))
   \<and> (session_post w (length calls) (build_request self system_prompt user_prompt timeout)
        = Responded r \<and> status_code r \<noteq> 200 \<longrightarrow>
      fst (make_api_call self w system_prompt user_prompt timeout calls) =
        Inl (Exception (''API Error: '' @ str_int (status_code r) @ '' - '' @ body_text r)))
   \<and> (session_post w (length calls) (build_request self system_prompt user_prompt timeout)
        = Responded r \<and> status_code r = 200 \<and> body_json r = Inr d
        \<and> content_at_path d = None \<longrightarrow>
      (\<exists>e. fst (make_api_call self w system_prompt user_prompt timeout calls) = Inl e
           \<and> (e = KeyError \<or> e = IndexError \<or> e = TypeError)))
   \<and> (session_post w (length calls) (build_request self system_prompt user_prompt timeout)
        = Responded r \<and> status_code r = 200 \<and> body_json r = Inr d
        \<and> content_at_path d = Some (JStr c) \<longrightarrow>
      fst (make_api_call self w system_prompt user_prompt timeout calls) = Inr (JStr c))"
  using make_api_call_failed [of w calls self system_prompt user_prompt timeout m]
    make_api_call_status [of w calls self system_prompt user_prompt timeout r]
    make_api_call_absent [of w calls self system_prompt user_prompt timeout r d]
    make_api_call_text [of w calls self system_prompt user_prompt timeout r d c]
  by blast

text \<open>
  The theorem at four networks: one that refuses the connection, one that answers 503,
  one that answers 200 with an empty list of choices, and one that answers 200 with a
  completion.
\<close>

theorem make_api_call_outcomes_witness:
  \<open>fst (make_api_call demo_copilot (scripted []) get_solidity_expert_prompt vault_prompt 30 [])
     = Inl (Exception ''API call failed: Connection refused'')
   \<and> fst (make_api_call demo_copilot (scripted [http_response 503 ''Service Unavailable''])
           get_solidity_expert_prompt vault_prompt 30 [])
       = Inl (Exception ''API Error: 503 - Service Unavailable'')
   \<and> (\<exists>e. fst (make_api_call demo_copilot (scripted [http_response 200 ''{"choices":[]}''])
                get_solidity_expert_prompt vault_prompt 30 []) = Inl e
          \<and> (e = KeyError \<or> e = IndexError \<or> e = TypeError))
   \<and> fst (make_api_call demo_copilot (scripted [http_response 200 (completion draft)])
           get_solidity_expert_prompt vault_prompt 30 [])
       = Inr (JStr draft)\<close>
proof -
  let ?request = "build_request demo_copilot get_solidity_expert_prompt vault_prompt 30"
  have refused: "session_post (scripted []) (length []) ?request = Failed ''Connection refused''"
    by (simp add: scripted_post)
  have unavailable:
    "session_post (scripted [http_response 503 ''Service Unavailable'']) (length []) ?request
       = Responded \<lparr>status_code = 503, body_text = ''Service Unavailable'',
                    body_json = json_loads ''Service Unavailable''\<rparr>"
    by (simp add: scripted_post http_response_def)
  have no_choices:
    \<open>session_post (scripted [http_response 200 ''{"choices":[]}'']) (length []) ?request
       = Responded \<lparr>status_code = 200, body_text = ''{"choices":[]}'',
                    body_json = Inr (JObj [(''choices'', JArr [])])\<rparr>\<close>
    by (simp add: scripted_post http_response_def loads_no_choices)
  have absent: "content_at_path (JObj [(''choices'', JArr [])]) = None"
    by (simp add: content_at_path_def)
  have completed:
    "session_post (scripted [http_response 200 (completion draft)]) (length []) ?request
       = Responded \<lparr>status_code = 200, body_text = completion draft,
                    body_json = Inr (decoded_completion draft)\<rparr>"
    by (simp add: scripted_post http_response_def loads_draft)
  have "fst (make_api_call demo_copilot (scripted []) get_solidity_expert_prompt vault_prompt
          30 []) = Inl (Exception ''API call failed: Connection refused'')"
    using make_api_call_outcomes
      [of "scripted []" "[]" demo_copilot get_solidity_expert_prompt vault_prompt 30
        "''Connection refused''"]
      refused by simp
  moreover have
    "fst (make_api_call demo_copilot (scripted [http_response 503 ''Service Unavailable''])
           get_solidity_expert_prompt vault_prompt 30 [])
       = Inl (Exception ''API Error: 503 - Service Unavailable'')"
    using make_api_call_outcomes
      [of "scripted [http_response 503 ''Service Unavailable'']" "[]" demo_copilot
        get_solidity_expert_prompt vault_prompt 30 _
        "\<lparr>status_code = 503, body_text = ''Service Unavailable'',
          body_json = json_loads ''Service Unavailable''\<rparr>"]
      unavailable by (simp add: str_int_503)
  moreover have
    \<open>\<exists>e. fst (make_api_call demo_copilot (scripted [http_response 200 ''{"choices":[]}''])
                get_solidity_expert_prompt vault_prompt 30 []) = Inl e
          \<and> (e = KeyError \<or> e = IndexError \<or> e = TypeError)\<close>
    using make_api_call_outcomes
      [of \<open>scripted [http_response 200 ''{"choices":[]}'']\<close> "[]" demo_copilot
        get_solidity_expert_prompt vault_prompt 30 _
        \<open>\<lparr>status_code = 200, body_text = ''{"choices":[]}'',
          body_json = Inr (JObj [(''choices'', JArr [])])\<rparr>\<close>
        "JObj [(''choices'', JArr [])]"]
      no_choices absent by simp
  moreover have
    "fst (make_api_call demo_copilot (scripted [http_response 200 (completion draft)])
           get_solidity_expert_prompt vault_prompt 30 [])
       = Inr (JStr draft)"
    using make_api_call_outcomes
      [of "scripted [http_response 200 (completion draft)]" "[]" demo_copilot
        get_solidity_expert_prompt vault_prompt 30 _
        "\<lparr>status_code = 200, body_text = completion draft,
          body_json = Inr (decoded_completion draft)\<rparr>"
        "decoded_completion draft" draft]
      completed by simp
  ultimately show ?thesis
    by blast
qed

section \<open>Properties of the orchestrator\<close>

subsection \<open>Auxiliary facts\<close>

lemma py_str_text [simp]: "py_str py_repr (JStr s) = s"
  by (simp add: py_str_def)

lemma get_response_single:
  assumes "\<not> three_call"
  shows "get_response self w flow_setting user_input two_call three_call =
           (case make_api_call self w get_solidity_expert_prompt user_input 30 [] of
              (Inl e, calls) \<Rightarrow> (Inr (JStr apology), calls)
            | (Inr v, calls) \<Rightarrow> (Inr v, calls))"
  using assms by (simp add: get_response_def Let_def split: prod.splits sum.splits)

lemma get_response_step1_raises:
  assumes "make_api_call self w get_solidity_expert_prompt user_input 30 [] = (Inl e, calls1)"
  shows "get_response self w flow_setting user_input two_call three_call =
           (Inr (JStr apology), calls1)"
  using assms by (simp add: get_response_def Let_def)

lemma get_response_step2_raises:
  assumes "make_api_call self w get_solidity_expert_prompt user_input 30 [] =
             (Inr primary, calls1)"
    and "make_api_call self w reviewer_system_prompt
           (improvement_prompt (value_repr w) user_input primary) 45 calls1 = (Inl e, calls2)"
  shows "get_response self w flow_setting user_input two_call True =
           (Inr (JStr apology), calls2)"
  using assms by (simp add: get_response_def Let_def)

lemma get_response_step3:
  assumes "make_api_call self w get_solidity_expert_prompt user_input 30 [] =
             (Inr primary, calls1)"
    and "make_api_call self w reviewer_system_prompt
           (improvement_prompt (value_repr w) user_input primary) 45 calls1 =
             (Inr improved, calls2)"
    and "make_api_call self w analyst_system_prompt
           (get_assumptions_prompt (value_repr w) user_input improved) 30 calls2 =
             (outcome, calls3)"
  shows "get_response self w flow_setting user_input two_call True =
           (case (case (case outcome of
                          Inl e \<Rightarrow> Inl e
                        | Inr reply \<Rightarrow> parse_assumptions_response (json_decoder w) reply) of
                    Inl e \<Rightarrow> (technical_error_marker, security_error_marker)
                  | Inr parsed \<Rightarrow> parsed) of
              (technical, security) \<Rightarrow>
                ((case display_results w flow_setting user_input primary improved
                         technical security of
                    Inl e \<Rightarrow> Inr (JStr apology)
                  | Inr displayed \<Rightarrow>
                      Inr (JStr (py_str (value_repr w) improved @ newline @ newline
                                 @ all_assumptions technical security @ newline @ newline
                                 @ completion_banner))),
                 calls3))"
  using assms
  by (simp add: get_response_def Let_def and_then_def split: prod.splits sum.splits)

lemma display_scripted [simp]:
  "display_results (scripted outcomes) (Some enabled) user_input primary improved
     technical security = Inr ()"
  by (simp add: display_results_def scripted_def)

lemma display_without_setting [simp]:
  "display_results (scripted outcomes) None user_input primary improved
     technical security = Inl AttributeError"
  by (simp add: display_results_def scripted_def)

lemma display_with_failing_table [simp]:
  "display_results (with_failing_table w) flow_setting user_input primary improved
     technical security = Inl ValueError"
  by (simp add: display_results_def with_failing_table_def)

lemma make_api_call_with_failing_table [simp]:
  "make_api_call self (with_failing_table w) = make_api_call self w"
  by (simp add: fun_eq_iff make_api_call_def with_failing_table_def)

lemma fields_with_failing_table [simp]:
  "value_repr (with_failing_table w) = value_repr w"
  "json_decoder (with_failing_table w) = json_decoder w"
  by (simp_all add: with_failing_table_def)

lemma parse_empty_object:
  "parse_assumptions_response json_loads (JStr ''{}'') = Inr ([], [])"
  by (simp add: parse_assumptions_response_def loads_empty_object dict_get_def)

lemma parse_not_json:
  "parse_assumptions_response json_loads (JStr ''not json'') =
     Inr (''Failed to parse assumptions as JSON'', ''Failed to parse assumptions as JSON'')"
  by (simp add: parse_assumptions_response_def loads_not_json)

lemma decoder_scripted [simp]: "json_decoder (scripted outcomes) = json_loads"
  by (simp add: scripted_def)

text \<open>The three calls of a turn against a scripted network that completes each.\<close>

lemma scripted_step1:
  "make_api_call demo_copilot (scripted (http_response 200 (completion draft) # rest))
     system_prompt user_prompt timeout [] =
   (Inr (JStr draft), [build_request demo_copilot system_prompt user_prompt timeout])"
  using scripted_completion
    [of "[]" "http_response 200 (completion draft) # rest" "completion draft" draft]
    loads_draft by simp

lemma scripted_step2:
  "make_api_call demo_copilot
     (scripted (first # http_response 200 (completion reviewed) # rest))
     system_prompt user_prompt timeout [request] =
   (Inr (JStr reviewed),
    [request, build_request demo_copilot system_prompt user_prompt timeout])"
  using scripted_completion
    [of "[request]" "first # http_response 200 (completion reviewed) # rest"
      "completion reviewed" reviewed]
    loads_reviewed by simp

lemma scripted_step3:
  assumes "json_loads (completion c) = Inr (decoded_completion c)"
  shows "make_api_call demo_copilot
     (scripted [first, second, http_response 200 (completion c)])
     system_prompt user_prompt timeout [request1, request2] =
   (Inr (JStr c),
    [request1, request2, build_request demo_copilot system_prompt user_prompt timeout])"
  using scripted_completion
    [of "[request1, request2]" "[first, second, http_response 200 (completion c)]"
      "completion c" c]
    assms by simp

subsection \<open>A turn in which the three calls return\<close>

text \<open>
  Claim C1, as the code has it. When the three calls of a turn return and the display
  of the results that follows (the two expanders, the read of the flow setting, the
  flow visualization when the setting is on) raises nothing, \<open>get_response\<close> returns
  one text: the improved output of step 2 (the reply itself when it is a text, as
  \<open>py_str\<close> says), then a blank line, then the assumptions block with its technical
  and its security subsection, then a blank line, then the completion banner. The two
  subsections hold what \<open>parse_assumptions_response\<close> gave for the reply of step 3,
  or the two error markers when it raised. When the display raises, the outer handler
  returns the apology instead. This holds for every user input, the empty one
  included.
\<close>

theorem three_calls_return_improved_output_assumptions_and_banner:
  assumes "make_api_call self w get_solidity_expert_prompt user_input 30 [] =
             (Inr primary, calls1)"
    and "make_api_call self w reviewer_system_prompt
           (improvement_prompt (value_repr w) user_input primary) 45 calls1 =
             (Inr improved, calls2)"
    and "make_api_call self w analyst_system_prompt
           (get_assumptions_prompt (value_repr w) user_input improved) 30 calls2 =
             (Inr reply, calls3)"
  shows "\<exists>technical security.
           (technical, security) =
             (case parse_assumptions_response (json_decoder w) reply of
                Inl e \<Rightarrow> (technical_error_marker, security_error_marker)
              | Inr parsed \<Rightarrow> parsed)
           \<and> (display_results w flow_setting user_input primary improved technical security
                 = Inr () \<longrightarrow>
               fst (get_response self w flow_setting user_input two_call True) =
                 Inr (JStr (py_str (value_repr w) improved @ newline @ newline
                            @ all_assumptions technical security @ newline @ newline
                            @ completion_banner)))
           \<and> (display_results w flow_setting user_input primary improved technical security
                 = Inl raised \<longrightarrow>
               fst (get_response self w flow_setting user_input two_call True) =
                 Inr (JStr apology))
           \<and> py_str (value_repr w) (JStr improved_text) = improved_text"
  using get_response_step3 [OF assms, of flow_setting two_call]
  by (cases "parse_assumptions_response (json_decoder w) reply") (auto split: prod.splits)

text \<open>
  The theorem at a turn whose three calls are completed with a draft, its review and
  the reply \<^verbatim>\<open>{}\<close>, an object without assumptions: once in a world that displays
  everything, and once in a world whose expanders raise.
\<close>

theorem three_calls_return_improved_output_assumptions_and_banner_witness:
  "vault_prompt \<noteq> []
   \<and> display_results
         (scripted [http_response 200 (completion draft),
                    http_response 200 (completion reviewed),
                    http_response 200 (completion ''{}'')])
         (Some True) vault_prompt (JStr draft) (JStr reviewed) [] [] = Inr ()
   \<and> fst (get_response demo_copilot
           (scripted [http_response 200 (completion draft),
                      http_response 200 (completion reviewed),
                      http_response 200 (completion ''{}'')])
           (Some True) vault_prompt False True) =
       Inr (JStr (reviewed @ newline @ newline @ all_assumptions [] [] @ newline @ newline
                  @ completion_banner))
   \<and> fst (get_response demo_copilot
           (with_failing_table
              (scripted [http_response 200 (completion draft),
                         http_response 200 (completion reviewed),
                         http_response 200 (completion ''{}'')]))
           (Some True) vault_prompt False True) =
       Inr (JStr ''Sorry, I encountered an error. Please try again.'')"
proof -
  let ?w = "scripted [http_response 200 (completion draft),
                      http_response 200 (completion reviewed),
                      http_response 200 (completion ''{}'')]"
  have repr: "value_repr ?w = (\<lambda>v. ''<value>'')"
    by (simp add: scripted_def)
  have step1: "make_api_call demo_copilot ?w get_solidity_expert_prompt vault_prompt 30 [] =
      (Inr (JStr draft),
       [build_request demo_copilot get_solidity_expert_prompt vault_prompt 30])"
    by (rule scripted_step1)
  have step2: "make_api_call demo_copilot ?w reviewer_system_prompt
      (improvement_prompt (value_repr ?w) vault_prompt (JStr draft)) 45
      [build_request demo_copilot get_solidity_expert_prompt vault_prompt 30] =
      (Inr (JStr reviewed),
       [build_request demo_copilot get_solidity_expert_prompt vault_prompt 30,
        build_request demo_copilot reviewer_system_prompt
          (improvement_prompt (value_repr ?w) vault_prompt (JStr draft)) 45])"
    by (rule scripted_step2)
  have step3: "make_api_call demo_copilot ?w analyst_system_prompt
      (get_assumptions_prompt (value_repr ?w) vault_prompt (JStr reviewed)) 30
      [build_request demo_copilot get_solidity_expert_prompt vault_prompt 30,
       build_request demo_copilot reviewer_system_prompt
         (improvement_prompt (value_repr ?w) vault_prompt (JStr draft)) 45] =
      (Inr (JStr ''{}''),
       [build_request demo_copilot get_solidity_expert_prompt vault_prompt 30,
        build_request demo_copilot reviewer_system_prompt
          (improvement_prompt (value_repr ?w) vault_prompt (JStr draft)) 45,
        build_request demo_copilot analyst_system_prompt
          (get_assumptions_prompt (value_repr ?w) vault_prompt (JStr reviewed)) 30])"
    by (rule scripted_step3 [OF loads_reply_object])
  have "fst (get_response demo_copilot ?w (Some True) vault_prompt False True) =
       Inr (JStr (reviewed @ newline @ newline @ all_assumptions [] [] @ newline @ newline
                  @ completion_banner))"
    using three_calls_return_improved_output_assumptions_and_banner
      [of demo_copilot ?w vault_prompt "JStr draft" _ "JStr reviewed" _ "JStr ''{}''" _
        "Some True" False ValueError reviewed, OF step1 step2 step3]
    by (simp add: parse_empty_object)
  moreover have
    "fst (get_response demo_copilot (with_failing_table ?w) (Some True) vault_prompt False True)
       = Inr (JStr ''Sorry, I encountered an error. Please try again.'')"
    using three_calls_return_improved_output_assumptions_and_banner
      [of demo_copilot "with_failing_table ?w" vault_prompt "JStr draft" _ "JStr reviewed" _
        "JStr ''{}''" _ "Some True" False ValueError reviewed]
      step1 step2 step3
    by (simp add: parse_empty_object apology_def)
  ultimately show ?thesis
    by (simp add: vault_prompt_def)
qed

text \<open>
  The claim as the specification words it (the composed text whenever the three calls
  succeed) fails on a turn whose three calls are completed when the display of the
  results raises: in a world whose expanders raise (with the flow setting on), and in
  one that displays everything but whose session state has no flow setting, the three
  calls return and \<open>get_response\<close> returns the apology.
\<close>

theorem three_successful_calls_can_end_in_the_apology:
  "fst (make_api_call demo_copilot
          (with_failing_table
             (scripted [http_response 200 (completion draft),
                        http_response 200 (completion reviewed),
                        http_response 200 (completion ''{}'')]))
          get_solidity_expert_prompt vault_prompt 30 []) = Inr (JStr draft)
   \<and> fst (make_api_call demo_copilot
          (with_failing_table
             (scripted [http_response 200 (completion draft),
                        http_response 200 (completion reviewed),
                        http_response 200 (completion ''{}'')]))
          reviewer_system_prompt
          (improvement_prompt (\<lambda>v. ''<value>'') vault_prompt (JStr draft)) 45
          [build_request demo_copilot get_solidity_expert_prompt vault_prompt 30])
       = Inr (JStr reviewed)
   \<and> fst (make_api_call demo_copilot
          (with_failing_table
             (scripted [http_response 200 (completion draft),
                        http_response 200 (completion reviewed),
                        http_response 200 (completion ''{}'')]))
          analyst_system_prompt
          (get_assumptions_prompt (\<lambda>v. ''<value>'') vault_prompt (JStr reviewed)) 30
          [build_request demo_copilot get_solidity_expert_prompt vault_prompt 30,
           build_request demo_copilot reviewer_system_prompt
             (improvement_prompt (\<lambda>v. ''<value>'') vault_prompt (JStr draft)) 45])
       = Inr (JStr ''{}'')
   \<and> fst (get_response demo_copilot
          (with_failing_table
             (scripted [http_response 200 (completion draft),
                        http_response 200 (completion reviewed),
                        http_response 200 (completion ''{}'')]))
          (Some True) vault_prompt False True) =
       Inr (JStr ''Sorry, I encountered an error. Please try again.'')
   \<and> fst (make_api_call demo_copilot
          (scripted [http_response 200 (completion draft),
                     http_response 200 (completion reviewed),
                     http_response 200 (completion ''{}'')])
          get_solidity_expert_prompt vault_prompt 30 []) = Inr (JStr draft)
   \<and> fst (make_api_call demo_copilot
          (scripted [http_response 200 (completion draft),
                     http_response 200 (completion reviewed),
                     http_response 200 (completion ''{}'')])
          reviewer_system_prompt
          (improvement_prompt (\<lambda>v. ''<value>'') vault_prompt (JStr draft)) 45
          [build_request demo_copilot get_solidity_expert_prompt vault_prompt 30])
       = Inr (JStr reviewed)
   \<and> fst (make_api_call demo_copilot
          (scripted [http_response 200 (completion draft),
                     http_response 200 (completion reviewed),
                     http_response 200 (completion ''{}'')])
          analyst_system_prompt
          (get_assumptions_prompt (\<lambda>v. ''<value>'') vault_prompt (JStr reviewed)) 30
          [build_request demo_copilot get_solidity_expert_prompt vault_prompt 30,
           build_request demo_copilot reviewer_system_prompt
             (improvement_prompt (\<lambda>v. ''<value>'') vault_prompt (JStr draft)) 45])
       = Inr (JStr ''{}'')
   \<and> fst (get_response demo_copilot
          (scripted [http_response 200 (completion draft),
                     http_response 200 (completion reviewed),
                     http_response 200 (completion ''{}'')])
          None vault_prompt False True) =
       Inr (JStr ''Sorry, I encountered an error. Please try again.'')"
proof -
  let ?w = "scripted [http_response 200 (completion draft),
                      http_response 200 (completion reviewed),
                      http_response 200 (completion ''{}'')]"
  have "fst (get_response demo_copilot (with_failing_table ?w) (Some True) vault_prompt
          False True) = Inr (JStr ''Sorry, I encountered an error. Please try again.'')"
    using get_response_step3
      [of demo_copilot "with_failing_table ?w" vault_prompt "JStr draft" _ "JStr reviewed" _
        "Inr (JStr ''{}'')" _ "Some True" False]
      scripted_step1 scripted_step2 scripted_step3 [OF loads_reply_object]
    by (simp add: parse_empty_object apology_def)
  moreover have "fst (get_response demo_copilot ?w None vault_prompt False True) =
      Inr (JStr ''Sorry, I encountered an error. Please try again.'')"
    using get_response_step3
      [of demo_copilot ?w vault_prompt "JStr draft" _ "JStr reviewed" _
        "Inr (JStr ''{}'')" _ None False,
        OF scripted_step1 scripted_step2 scripted_step3 [OF loads_reply_object]]
    by (simp add: parse_empty_object apology_def)
  ultimately show ?thesis
    by (simp add: scripted_step1 scripted_step2 scripted_step3 [OF loads_reply_object])
qed

subsection \<open>A turn in which step 1 or step 2 raises\<close>

text \<open>
  Claim C2. Whatever exception the call of step 1 raises, in every mode, and whatever
  exception the call of step 2 raises after step 1 returned, \<open>get_response\<close> returns
  the apology \<^verbatim>\<open>Sorry, I encountered an error. Please try again.\<close> and nothing
  else: no part of either reply is in the returned value.
\<close>

theorem step_one_or_two_raising_gives_only_the_apology:
  "(fst (make_api_call self w get_solidity_expert_prompt user_input 30 []) = Inl e \<longrightarrow>
      fst (get_response self w flow_setting user_input two_call three_call) =
        Inr (JStr apology))
   \<and> (make_api_call self w get_solidity_expert_prompt user_input 30 [] =
         (Inr primary, calls1)
       \<and> fst (make_api_call self w reviewer_system_prompt
                (improvement_prompt (value_repr w) user_input primary) 45 calls1) = Inl e \<longrightarrow>
      fst (get_response self w flow_setting user_input two_call True) = Inr (JStr apology))
   \<and> apology = ''Sorry, I encountered an error. Please try again.''"
proof (intro conjI impI)
  assume "fst (make_api_call self w get_solidity_expert_prompt user_input 30 []) = Inl e"
  then have "make_api_call self w get_solidity_expert_prompt user_input 30 [] =
      (Inl e, snd (make_api_call self w get_solidity_expert_prompt user_input 30 []))"
    by (metis prod.collapse)
  then show "fst (get_response self w flow_setting user_input two_call three_call) =
      Inr (JStr apology)"
    by (simp add: get_response_step1_raises)
next
  assume "make_api_call self w get_solidity_expert_prompt user_input 30 [] =
         (Inr primary, calls1)
       \<and> fst (make_api_call self w reviewer_system_prompt
                (improvement_prompt (value_repr w) user_input primary) 45 calls1) = Inl e"
  then have one: "make_api_call self w get_solidity_expert_prompt user_input 30 [] =
         (Inr primary, calls1)"
    and two: "make_api_call self w reviewer_system_prompt
                (improvement_prompt (value_repr w) user_input primary) 45 calls1 =
         (Inl e, snd (make_api_call self w reviewer_system_prompt
                (improvement_prompt (value_repr w) user_input primary) 45 calls1))"
    by (simp, metis prod.collapse)
  show "fst (get_response self w flow_setting user_input two_call True) = Inr (JStr apology)"
    by (simp add: get_response_step2_raises [OF one two])
next
  show "apology = ''Sorry, I encountered an error. Please try again.''"
    by (simp add: apology_def)
qed

text \<open>
  The theorem at a network that refuses the first connection, and at one that completes
  step 1 and answers step 2 with status 429.
\<close>

theorem step_one_or_two_raising_gives_only_the_apology_witness:
  "fst (make_api_call demo_copilot (scripted []) get_solidity_expert_prompt vault_prompt 30 [])
     = Inl (Exception ''API call failed: Connection refused'')
   \<and> fst (get_response demo_copilot (scripted []) (Some True) vault_prompt False True) =
       Inr (JStr ''Sorry, I encountered an error. Please try again.'')
   \<and> fst (get_response demo_copilot (scripted []) (Some True) vault_prompt False False) =
       Inr (JStr ''Sorry, I encountered an error. Please try again.'')
   \<and> fst (get_response demo_copilot
           (scripted [http_response 200 (completion draft),
                      http_response 429 ''Too Many Requests''])
           (Some True) vault_prompt False True) =
       Inr (JStr ''Sorry, I encountered an error. Please try again.'')"
proof -
  let ?w = "scripted [http_response 200 (completion draft),
                      http_response 429 ''Too Many Requests'']"
  have refused:
    "fst (make_api_call demo_copilot (scripted []) get_solidity_expert_prompt vault_prompt
       30 []) = Inl (Exception ''API call failed: Connection refused'')"
    by (simp add: scripted_refused)
  have limited:
    "fst (make_api_call demo_copilot ?w reviewer_system_prompt
            (improvement_prompt (value_repr ?w) vault_prompt (JStr draft)) 45
            [build_request demo_copilot get_solidity_expert_prompt vault_prompt 30]) =
       Inl (Exception ''API Error: 429 - Too Many Requests'')"
    using scripted_status
      [of "[build_request demo_copilot get_solidity_expert_prompt vault_prompt 30]"
        "[http_response 200 (completion draft), http_response 429 ''Too Many Requests'']"
        429 "''Too Many Requests''"]
    by (simp add: str_int_429)
  note first = step_one_or_two_raising_gives_only_the_apology
    [of demo_copilot "scripted []" vault_prompt
      "Exception ''API call failed: Connection refused''" "Some True" False]
  note second = step_one_or_two_raising_gives_only_the_apology
    [of demo_copilot ?w vault_prompt
      "Exception ''API Error: 429 - Too Many Requests''" "Some True" False True "JStr draft"
      "[build_request demo_copilot get_solidity_expert_prompt vault_prompt 30]"]
  have "fst (get_response demo_copilot (scripted []) (Some True) vault_prompt False True) =
       Inr (JStr ''Sorry, I encountered an error. Please try again.'')"
    using first [of True] refused by simp
  moreover have "fst (get_response demo_copilot (scripted []) (Some True) vault_prompt False False) =
       Inr (JStr ''Sorry, I encountered an error. Please try again.'')"
    using first [of False] refused by simp
  moreover have "fst (get_response demo_copilot ?w (Some True) vault_prompt False True) =
       Inr (JStr ''Sorry, I encountered an error. Please try again.'')"
    using second scripted_step1 [of "[http_response 429 ''Too Many Requests'']"] limited
    by simp
  ultimately show ?thesis
    using refused by blast
qed

subsection \<open>A turn in which step 3 fails\<close>

text \<open>
  Claim C3, as the code has it. After steps 1 and 2 returned, no failure of step 3
  ends the turn: when the display of the results raises nothing, the returned text is
  still the improved output, the assumptions block and the banner. When the call of
  step 3 raises, or \<open>parse_assumptions_response\<close> raises on its reply, the technical
  and the security subsection are the markers
  \<^verbatim>\<open>Error extracting technical assumptions from code analysis\<close> and
  \<^verbatim>\<open>Error extracting security assumptions from code analysis\<close>. When the reply is a
  text that fails to decode, the parser does not raise, and both subsections are its
  own marker \<^verbatim>\<open>Failed to parse assumptions as JSON\<close> instead.
\<close>

theorem step_three_failure_keeps_improved_output:
  assumes "make_api_call self w get_solidity_expert_prompt user_input 30 [] =
             (Inr primary, calls1)"
    and "make_api_call self w reviewer_system_prompt
           (improvement_prompt (value_repr w) user_input primary) 45 calls1 =
             (Inr improved, calls2)"
  shows "(fst (make_api_call self w analyst_system_prompt
                (get_assumptions_prompt (value_repr w) user_input improved) 30 calls2)
            = Inl e
          \<and> display_results w flow_setting user_input primary improved
                technical_error_marker security_error_marker = Inr () \<longrightarrow>
          fst (get_response self w flow_setting user_input two_call True) =
            Inr (JStr (py_str (value_repr w) improved @ newline @ newline
                       @ all_assumptions technical_error_marker security_error_marker
                       @ newline @ newline @ completion_banner)))
         \<and> (fst (make_api_call self w analyst_system_prompt
                   (get_assumptions_prompt (value_repr w) user_input improved) 30 calls2)
               = Inr reply
             \<and> parse_assumptions_response (json_decoder w) reply = Inl e
             \<and> display_results w flow_setting user_input primary improved
                   technical_error_marker security_error_marker = Inr () \<longrightarrow>
             fst (get_response self w flow_setting user_input two_call True) =
               Inr (JStr (py_str (value_repr w) improved @ newline @ newline
                          @ all_assumptions technical_error_marker security_error_marker
                          @ newline @ newline @ completion_banner)))
         \<and> (fst (make_api_call self w analyst_system_prompt
                   (get_assumptions_prompt (value_repr w) user_input improved) 30 calls2)
               = Inr (JStr reply_text)
             \<and> json_decoder w reply_text = Inl JSONDecodeError
             \<and> display_results w flow_setting user_input primary improved
                   ''Failed to parse assumptions as JSON''
                   ''Failed to parse assumptions as JSON'' = Inr () \<longrightarrow>
             fst (get_response self w flow_setting user_input two_call True) =
               Inr (JStr (py_str (value_repr w) improved @ newline @ newline
                          @ all_assumptions ''Failed to parse assumptions as JSON''
                              ''Failed to parse assumptions as JSON''
                          @ newline @ newline @ completion_banner)))
         \<and> technical_error_marker =
             ''Error extracting technical assumptions from code analysis''
         \<and> security_error_marker =
             ''Error extracting security assumptions from code analysis''"
proof -
  obtain outcome calls3 where step3:
    "make_api_call self w analyst_system_prompt
       (get_assumptions_prompt (value_repr w) user_input improved) 30 calls2 =
     (outcome, calls3)"
    by (cases "make_api_call self w analyst_system_prompt
       (get_assumptions_prompt (value_repr w) user_input improved) 30 calls2")
  note unfolded = get_response_step3 [OF assms step3, of flow_setting two_call]
  show ?thesis
    unfolding unfolded step3
    by (auto simp: technical_error_marker_def security_error_marker_def parse_decode_error)
qed

text \<open>
  The theorem at three turns whose first two calls are completed: in the first the
  network refuses the third connection, in the second the reply of step 3 is
  \<^verbatim>\<open>[]\<close>, on which the parser raises, and in the third it is \<^verbatim>\<open>not json\<close>.
\<close>

theorem step_three_failure_keeps_improved_output_witness:
  "fst (get_response demo_copilot
          (scripted [http_response 200 (completion draft),
                     http_response 200 (completion reviewed)])
          (Some True) vault_prompt False True) =
     Inr (JStr (reviewed @ newline @ newline
                @ all_assumptions
                    ''Error extracting technical assumptions from code analysis''
                    ''Error extracting security assumptions from code analysis''
                @ newline @ newline @ completion_banner))
   \<and> parse_assumptions_response json_loads (JStr ''[]'') = Inl AttributeError
   \<and> fst (get_response demo_copilot
          (scripted [http_response 200 (completion draft),
                     http_response 200 (completion reviewed),
                     http_response 200 (completion ''[]'')])
          (Some True) vault_prompt False True) =
     Inr (JStr (reviewed @ newline @ newline
                @ all_assumptions
                    ''Error extracting technical assumptions from code analysis''
                    ''Error extracting security assumptions from code analysis''
                @ newline @ newline @ completion_banner))
   \<and> json_loads ''not json'' = Inl JSONDecodeError
   \<and> fst (get_response demo_copilot
          (scripted [http_response 200 (completion draft),
                     http_response 200 (completion reviewed),
                     http_response 200 (completion ''not json'')])
          (Some True) vault_prompt False True) =
     Inr (JStr (reviewed @ newline @ newline
                @ all_assumptions ''Failed to parse assumptions as JSON''
                    ''Failed to parse assumptions as JSON''
                @ newline @ newline @ completion_banner))"
proof -
  let ?refusing = "scripted [http_response 200 (completion draft),
                             http_response 200 (completion reviewed)]"
  let ?list = "scripted [http_response 200 (completion draft),
                         http_response 200 (completion reviewed),
                         http_response 200 (completion ''[]'')]"
  let ?text = "scripted [http_response 200 (completion draft),
                         http_response 200 (completion reviewed),
                         http_response 200 (completion ''not json'')]"
  let ?request1 = "build_request demo_copilot get_solidity_expert_prompt vault_prompt 30"
  let ?request2 = "\<lambda>w. build_request demo_copilot reviewer_system_prompt
                      (improvement_prompt (value_repr w) vault_prompt (JStr draft)) 45"
  have refused:
    "fst (make_api_call demo_copilot ?refusing analyst_system_prompt
            (get_assumptions_prompt (value_repr ?refusing) vault_prompt (JStr reviewed)) 30
            [?request1, ?request2 ?refusing]) =
       Inl (Exception ''API call failed: Connection refused'')"
    by (simp add: scripted_refused)
  have listed:
    "fst (make_api_call demo_copilot ?list analyst_system_prompt
            (get_assumptions_prompt (value_repr ?list) vault_prompt (JStr reviewed)) 30
            [?request1, ?request2 ?list]) = Inr (JStr ''[]'')"
    by (simp add: scripted_step3 [OF loads_reply_list])
  have texted:
    "fst (make_api_call demo_copilot ?text analyst_system_prompt
            (get_assumptions_prompt (value_repr ?text) vault_prompt (JStr reviewed)) 30
            [?request1, ?request2 ?text]) = Inr (JStr ''not json'')"
    by (simp add: scripted_step3 [OF loads_reply_text])
  have "fst (get_response demo_copilot ?refusing (Some True) vault_prompt False True) =
     Inr (JStr (reviewed @ newline @ newline
                @ all_assumptions
                    ''Error extracting technical assumptions from code analysis''
                    ''Error extracting security assumptions from code analysis''
                @ newline @ newline @ completion_banner))"
    using step_three_failure_keeps_improved_output
      [of demo_copilot ?refusing vault_prompt "JStr draft" "[?request1]" "JStr reviewed"
        "[?request1, ?request2 ?refusing]"
        "Exception ''API call failed: Connection refused''" "Some True" False,
        OF scripted_step1 scripted_step2]
      refused by simp
  moreover have "fst (get_response demo_copilot ?list (Some True) vault_prompt False True) =
     Inr (JStr (reviewed @ newline @ newline
                @ all_assumptions
                    ''Error extracting technical assumptions from code analysis''
                    ''Error extracting security assumptions from code analysis''
                @ newline @ newline @ completion_banner))"
    using step_three_failure_keeps_improved_output
      [of demo_copilot ?list vault_prompt "JStr draft" "[?request1]" "JStr reviewed"
        "[?request1, ?request2 ?list]" AttributeError "Some True" False "JStr ''[]''",
        OF scripted_step1 scripted_step2]
      listed parse_empty_list by simp
  moreover have "fst (get_response demo_copilot ?text (Some True) vault_prompt False True) =
     Inr (JStr (reviewed @ newline @ newline
                @ all_assumptions ''Failed to parse assumptions as JSON''
                    ''Failed to parse assumptions as JSON''
                @ newline @ newline @ completion_banner))"
    using step_three_failure_keeps_improved_output
      [of demo_copilot ?text vault_prompt "JStr draft" "[?request1]" "JStr reviewed"
        "[?request1, ?request2 ?text]" _ "Some True" False _ "''not json''",
        OF scripted_step1 scripted_step2]
      texted loads_not_json by simp
  ultimately show ?thesis
    using parse_empty_list loads_not_json by blast
qed

text \<open>
  The claim as the specification words it (an error-extracting marker in both
  subsections after any failure of step 3, a parse failure included) fails on a turn
  whose first two calls are completed and whose third reply is the text
  \<^verbatim>\<open>not json\<close>: the reply does not decode, the returned text carries the parser's
  marker in both subsections, and \<^verbatim>\<open>rror extracting\<close> occurs nowhere in it.
\<close>

lemma no_error_marker_in_degraded_text:
  "\<not> sublist ''rror extracting''
       (reviewed @ newline @ newline
        @ all_assumptions ''Failed to parse assumptions as JSON''
            ''Failed to parse assumptions as JSON''
        @ newline @ newline @ completion_banner)"
  by code_simp

theorem undecodable_reply_shows_parser_marker:
  "fst (make_api_call demo_copilot
          (scripted [http_response 200 (completion draft),
                     http_response 200 (completion reviewed),
                     http_response 200 (completion ''not json'')])
          get_solidity_expert_prompt vault_prompt 30 []) = Inr (JStr draft)
   \<and> fst (make_api_call demo_copilot
          (scripted [http_response 200 (completion draft),
                     http_response 200 (completion reviewed),
                     http_response 200 (completion ''not json'')])
          reviewer_system_prompt
          (improvement_prompt (\<lambda>v. ''<value>'') vault_prompt (JStr draft)) 45
          [build_request demo_copilot get_solidity_expert_prompt vault_prompt 30])
       = Inr (JStr reviewed)
   \<and> json_loads ''not json'' = Inl JSONDecodeError
   \<and> fst (get_response demo_copilot
          (scripted [http_response 200 (completion draft),
                     http_response 200 (completion reviewed),
                     http_response 200 (completion ''not json'')])
          (Some True) vault_prompt False True) =
     Inr (JStr (reviewed @ newline @ newline
                @ all_assumptions ''Failed to parse assumptions as JSON''
                    ''Failed to parse assumptions as JSON''
                @ newline @ newline @ completion_banner))
   \<and> \<not> sublist ''rror extracting''
         (reviewed @ newline @ newline
          @ all_assumptions ''Failed to parse assumptions as JSON''
              ''Failed to parse assumptions as JSON''
          @ newline @ newline @ completion_banner)"
proof -
  let ?w = "scripted [http_response 200 (completion draft),
                      http_response 200 (completion reviewed),
                      http_response 200 (completion ''not json'')]"
  have "fst (get_response demo_copilot ?w (Some True) vault_prompt False True) =
     Inr (JStr (reviewed @ newline @ newline
                @ all_assumptions ''Failed to parse assumptions as JSON''
                    ''Failed to parse assumptions as JSON''
                @ newline @ newline @ completion_banner))"
    using get_response_step3
      [of demo_copilot ?w vault_prompt "JStr draft" _ "JStr reviewed" _ "Inr (JStr ''not json'')"
        _ "Some True" False,
        OF scripted_step1 scripted_step2 scripted_step3 [OF loads_reply_text]]
    by (simp add: parse_not_json)
  then show ?thesis
    using no_error_marker_in_degraded_text loads_not_json
    by (simp add: scripted_step1 scripted_step2)
qed

subsection \<open>Totality\<close>

text \<open>
  Claim C10. For every input text and whatever the network, the decoder, the replies
  and the display of the results do, \<open>get_response\<close> raises nothing: its result is a
  returned value. In the three-call mode, the only one the page uses, that value is a
  text: the composed answer or the apology. In the other modes it is the content that
  the single call returned, or the apology. The exceptions are those of class
  \<^verbatim>\<open>Exception\<close>, and the two calls of the outer handler itself
  (\<^verbatim>\<open>logger.error\<close> and \<^verbatim>\<open>st.error\<close> on the text of the exception) are
  taken to return.
\<close>

theorem get_response_always_returns:
  "(\<exists>answer. fst (get_response self w flow_setting user_input two_call True) =
       Inr (JStr answer))
   \<and> (\<exists>v. fst (get_response self w flow_setting user_input two_call False) = Inr v)"
proof
  show "\<exists>answer. fst (get_response self w flow_setting user_input two_call True) =
      Inr (JStr answer)"
    by (simp add: get_response_def Let_def and_then_def split: prod.splits sum.splits)
  show "\<exists>v. fst (get_response self w flow_setting user_input two_call False) = Inr v"
    by (simp add: get_response_single split: prod.splits sum.splits)
qed

section \<open>The requests of a turn\<close>

subsection \<open>Auxiliary facts\<close>

text \<open>The requests that \<open>get_response\<close> makes, in order.\<close>

lemma get_response_calls:
  "snd (get_response self w flow_setting user_input two_call three_call) =
     (let request1 = build_request self get_solidity_expert_prompt user_input 30
      in if three_call then
           (case fst (make_api_call self w get_solidity_expert_prompt user_input 30 []) of
              Inl e \<Rightarrow> [request1]
            | Inr primary \<Rightarrow>
                (let request2 = build_request self reviewer_system_prompt
                       (improvement_prompt (value_repr w) user_input primary) 45
                 in case fst (make_api_call self w reviewer_system_prompt
                            (improvement_prompt (value_repr w) user_input primary) 45
                            [request1]) of
                      Inl e \<Rightarrow> [request1, request2]
                    | Inr improved \<Rightarrow>
                        [request1, request2,
                         build_request self analyst_system_prompt
                           (get_assumptions_prompt (value_repr w) user_input improved) 30]))
         else [request1])"
proof -
  let ?request1 = "build_request self get_solidity_expert_prompt user_input 30"
  obtain outcome1 where step1:
    "make_api_call self w get_solidity_expert_prompt user_input 30 [] =
       (outcome1, [?request1])"
    using make_api_call_eq [of self w get_solidity_expert_prompt user_input 30 "[]"]
    by simp
  show ?thesis
  proof (cases three_call)
    case False
    then show ?thesis
      by (simp add: get_response_single step1 split: sum.splits)
  next
    case True
    show ?thesis
    proof (cases outcome1)
      case (Inl e)
      then show ?thesis
        using True step1 by (simp add: get_response_step1_raises)
    next
      case (Inr primary)
      let ?prompt2 = "improvement_prompt (value_repr w) user_input primary"
      let ?request2 = "build_request self reviewer_system_prompt ?prompt2 45"
      obtain outcome2 where step2:
        "make_api_call self w reviewer_system_prompt ?prompt2 45 [?request1] =
           (outcome2, [?request1, ?request2])"
        using make_api_call_eq [of self w reviewer_system_prompt ?prompt2 45 "[?request1]"]
        by simp
      show ?thesis
      proof (cases outcome2)
        case (Inl e)
        then show ?thesis
          using True Inr step1 step2
          by (simp add: get_response_step2_raises [of self w user_input primary])
      next
        case improved: (Inr improved)
        let ?prompt3 = "get_assumptions_prompt (value_repr w) user_input improved"
        obtain outcome3 where step3:
          "make_api_call self w analyst_system_prompt ?prompt3 30 [?request1, ?request2] =
             (outcome3,
              [?request1, ?request2, build_request self analyst_system_prompt ?prompt3 30])"
          using make_api_call_eq
            [of self w analyst_system_prompt ?prompt3 30 "[?request1, ?request2]"]
          by simp
        show ?thesis
          using True Inr improved step1 step2
            get_response_step3 [of self w user_input primary "[?request1]" improved
              "[?request1, ?request2]" outcome3 _ flow_setting two_call]
            step3
          by (simp split: prod.splits)
      qed
    qed
  qed
qed

lemma request_body:
  "req_json (build_request self system_prompt user_prompt timeout) =
     chat_completion_body (model_name self) system_prompt user_prompt"
  by (simp add: build_request_def chat_completion_body_def)

lemma request_fields:
  "req_url (build_request self system_prompt user_prompt timeout) =
     base_url self @ ''/chat/completions''"
  "map_of (req_headers (build_request self system_prompt user_prompt timeout))
     ''Authorization'' = Some (''Bearer '' @ api_key self)"
  "req_timeout (build_request self system_prompt user_prompt timeout) = timeout"
  by (simp_all add: build_request_def)

lemma get_response_calls_cases:
  obtains (one) "snd (get_response self w flow_setting user_input two_call three_call) =
      [build_request self get_solidity_expert_prompt user_input 30]"
  | (two) primary where "three_call"
      "snd (get_response self w flow_setting user_input two_call three_call) =
        [build_request self get_solidity_expert_prompt user_input 30,
         build_request self reviewer_system_prompt
           (improvement_prompt (value_repr w) user_input primary) 45]"
  | (three) primary improved where "three_call"
      "snd (get_response self w flow_setting user_input two_call three_call) =
        [build_request self get_solidity_expert_prompt user_input 30,
         build_request self reviewer_system_prompt
           (improvement_prompt (value_repr w) user_input primary) 45,
         build_request self analyst_system_prompt
           (get_assumptions_prompt (value_repr w) user_input improved) 30]"
  using get_response_calls [of self w flow_setting user_input two_call three_call]
  by (auto simp: Let_def split: if_splits sum.splits)

lemma improvement_prompt_not_empty: "improvement_prompt py_repr user_input primary \<noteq> []"
  by (simp add: improvement_prompt_def)

lemma assumptions_prompt_not_empty:
  "get_assumptions_prompt py_repr user_input improved \<noteq> []"
  by (simp add: get_assumptions_prompt_def)

text \<open>
  A run of the page makes no request, or its requests are those of one call of
  \<open>get_response\<close> on a prompt that is not empty, with the flags \<open>False\<close> and
  \<open>True\<close> and the flow setting on.
\<close>

lemma chat_turn_calls:
  assumes "use_two_call ss = Some False" and "use_three_call ss = Some True"
  shows "snd (chat_turn self w ss prompt) = []
         \<or> (snd (chat_turn self w ss prompt) =
               snd (get_response self w (show_flow_visualization ss) prompt False True)
             \<and> (\<forall>ss'. fst (chat_turn self w ss prompt) = Inr ss' \<longrightarrow>
                   (\<exists>ms response.
                      messages ss' =
                        Some (ms @ [(''user'', JStr prompt), (''assistant'', response)])
                      \<and> fst (get_response self w (show_flow_visualization ss) prompt
                               False True) = Inr response)))"
  using assms
  by (auto simp: chat_turn_def split: option.splits prod.splits sum.splits)

lemma main_calls:
  "snd (main self w ui ss0) = []
   \<or> (\<exists>prompt. prompt \<noteq> []
         \<and> snd (main self w ui ss0) =
             snd (get_response self w (Some True) prompt False True)
         \<and> (\<forall>ss. fst (main self w ui ss0) = Inr ss \<longrightarrow>
               (\<exists>ms response.
                  messages ss =
                    Some (ms @ [(''user'', JStr prompt), (''assistant'', response)])
                  \<and> fst (get_response self w (Some True) prompt False True) =
                      Inr response)))"
proof -
  define ss3 where "ss3 =
    (initialize_session_state ss0)
      \<lparr>use_two_call := Some False, use_three_call := Some True,
       show_flow_visualization := Some True\<rparr>"
  define run where "run outcome \<longleftrightarrow>
    snd outcome = []
    \<or> (\<exists>prompt. prompt \<noteq> []
          \<and> snd outcome = snd (get_response self w (Some True) prompt False True)
          \<and> (\<forall>ss. fst outcome = Inr ss \<longrightarrow>
                (\<exists>ms response.
                   messages ss =
                     Some (ms @ [(''user'', JStr prompt), (''assistant'', response)])
                   \<and> fst (get_response self w (Some True) prompt False True) =
                       Inr response)))"
    for outcome :: "(exn + session_state) \<times> api_request list"
  have configured: "use_two_call ss3 = Some False" "use_three_call ss3 = Some True"
    "show_flow_visualization ss3 = Some True"
    by (simp_all add: ss3_def)
  have idle_run: "run (outcome, [])" for outcome
    by (simp add: run_def)
  have turn_run: "run (chat_turn self w ss3 prompt)" if "prompt \<noteq> []" for prompt
    unfolding run_def
    using that chat_turn_calls [OF configured(1,2), of self w prompt]
    unfolding configured(3) by blast
  have main_eq: "main self w ui ss0 =
     (if clear_chat ui then
        (Inr ((initialize_session_state ss0)
               \<lparr>use_two_call := Some False, use_three_call := Some True,
                messages := Some [], chat_history := Some [],
                verification_details := Some []\<rparr>), [])
      else if registry_button ui then
        chat_turn self w ss3 ''Create a Registry Style contract for managing Artifacts''
      else if vault_button ui then chat_turn self w ss3 ''Create a Vault Contract''
      else if staking_button ui then
        chat_turn self w ss3 ''Create a Staking Contract with yield''
      else if marketplace_button ui then
        chat_turn self w ss3
          ''Create a Marketplace Contract to allow buying, selling, and trading of in-game assets (NFTs or tokens)''
      else if escrow_button ui then
        chat_turn self w ss3
          ''Create a Escrow / Prize Pool Contracts to hold funds for tournaments, wagers, or bets until game outcomes are verified''
      else if rewards_button ui then
        chat_turn self w ss3
          ''Create Reward Distribution Contracts for play-to-earn reward payouts''
      else
        (case messages ss3 of
           None \<Rightarrow> (Inl AttributeError, [])
         | Some ms \<Rightarrow>
             (case display_history w ms of
                Some e \<Rightarrow> (Inl e, [])
              | None \<Rightarrow>
                  (case chat_input ui of
                     None \<Rightarrow> (Inr ss3, [])
                   | Some prompt \<Rightarrow>
                       if prompt \<noteq> [] then chat_turn self w ss3 prompt
                       else (Inr ss3, [])))))"
    unfolding main_def Let_def ss3_def by simp
  have "run (main self w ui ss0)"
    unfolding main_eq by (simp add: idle_run turn_run split: option.splits)
  then show ?thesis
    unfolding run_def .
qed

lemma get_response_requests:
  assumes "request \<in> set (snd (get_response self w flow_setting user_input two_call three_call))"
  shows "\<exists>system_prompt user_prompt timeout.
           request = build_request self system_prompt user_prompt timeout
           \<and> (user_input = [] \<or> user_prompt \<noteq> [])"
proof (cases rule: get_response_calls_cases [of self w flow_setting user_input two_call three_call])
  case one
  with assms have "request = build_request self get_solidity_expert_prompt user_input 30"
    by simp
  then show ?thesis by blast
next
  case (two primary)
  with assms consider
    "request = build_request self get_solidity_expert_prompt user_input 30"
    | "request = build_request self reviewer_system_prompt
         (improvement_prompt (value_repr w) user_input primary) 45"
    by auto
  then show ?thesis
    using improvement_prompt_not_empty [of "value_repr w" user_input primary]
    by cases blast+
next
  case (three primary improved)
  with assms consider
    "request = build_request self get_solidity_expert_prompt user_input 30"
    | "request = build_request self reviewer_system_prompt
         (improvement_prompt (value_repr w) user_input primary) 45"
    | "request = build_request self analyst_system_prompt
         (get_assumptions_prompt (value_repr w) user_input improved) 30"
    by auto
  then show ?thesis
    using improvement_prompt_not_empty [of "value_repr w" user_input primary]
      assumptions_prompt_not_empty [of "value_repr w" user_input improved]
    by cases blast+
qed


lemma get_response_request_format:
  assumes "request \<in> set (snd (get_response self w flow_setting user_input two_call three_call))"
  shows "req_url request = base_url self @ ''/chat/completions''
         \<and> (\<exists>system_content user_content.
               req_json request =
                 chat_completion_body (model_name self) system_content user_content)
         \<and> map_of (req_headers request) ''Authorization'' = Some (''Bearer '' @ api_key self)"
proof -
  from get_response_requests [OF assms]
  obtain system_prompt user_prompt timeout
    where "request = build_request self system_prompt user_prompt timeout"
    by blast
  then show ?thesis
    using request_body [of self system_prompt user_prompt timeout]
      request_fields [of self system_prompt user_prompt timeout]
    by auto
qed

text \<open>The turn that the runs below use: the three calls are completed.\<close>

lemma vault_turn:
  "get_response demo_copilot
     (scripted [http_response 200 (completion draft),
                http_response 200 (completion reviewed),
                http_response 200 (completion ''{}'')])
     (Some True) vault_prompt False True =
   (Inr (JStr (reviewed @ newline @ newline @ all_assumptions [] [] @ newline @ newline
               @ completion_banner)),
    [build_request demo_copilot get_solidity_expert_prompt vault_prompt 30,
     build_request demo_copilot reviewer_system_prompt
       (improvement_prompt (\<lambda>v. ''<value>'') vault_prompt (JStr draft)) 45,
     build_request demo_copilot analyst_system_prompt
       (get_assumptions_prompt (\<lambda>v. ''<value>'') vault_prompt (JStr reviewed)) 30])"
proof -
  let ?w = "scripted [http_response 200 (completion draft),
                      http_response 200 (completion reviewed),
                      http_response 200 (completion ''{}'')]"
  have repr: "value_repr ?w = (\<lambda>v. ''<value>'')"
    by (simp add: scripted_def)
  show ?thesis
    using get_response_step3
      [of demo_copilot ?w vault_prompt "JStr draft" _ "JStr reviewed" _ "Inr (JStr ''{}'')"
        _ "Some True" False,
        OF scripted_step1 scripted_step2 scripted_step3 [OF loads_reply_object]]
    by (simp add: parse_empty_object repr)
qed

lemma display_chat_scripted [simp]:
  "display_chat_message (scripted outcomes) role content = None"
  by (simp add: scripted_def)

lemma vault_run:
  "main demo_copilot
     (scripted [http_response 200 (completion draft),
                http_response 200 (completion reviewed),
                http_response 200 (completion ''{}'')])
     (idle\<lparr>vault_button := True\<rparr>) empty_session =
   (Inr \<lparr>messages =
           Some [(''user'', JStr vault_prompt),
                 (''assistant'',
                  JStr (reviewed @ newline @ newline @ all_assumptions [] [] @ newline
                        @ newline @ completion_banner))],
         chat_history = Some [], use_two_call = Some False, use_three_call = Some True,
         verification_details = Some [], show_flow_visualization = Some True\<rparr>,
    [build_request demo_copilot get_solidity_expert_prompt vault_prompt 30,
     build_request demo_copilot reviewer_system_prompt
       (improvement_prompt (\<lambda>v. ''<value>'') vault_prompt (JStr draft)) 45,
     build_request demo_copilot analyst_system_prompt
       (get_assumptions_prompt (\<lambda>v. ''<value>'') vault_prompt (JStr reviewed)) 30])"
  using vault_turn
  by (simp add: main_def Let_def idle_def empty_session_def initialize_session_state_def
      chat_turn_def vault_prompt_def)

subsection \<open>The request of every call\<close>

text \<open>
  Claim C7. Every call of \<open>make_api_call\<close> hands exactly one request to the
  network: its address is the base address followed by \<^verbatim>\<open>/chat/completions\<close>, its
  body is the body of the specification (two messages, the system one first, then
  the user one, temperature 0.7, at most 6000 tokens, no streaming), its
  \<^verbatim>\<open>Authorization\<close> header is \<^verbatim>\<open>Bearer\<close> and the key, and its timeout is the one
  the caller gave. Every request of a turn has this form. The timeouts of the requests
  of a three-call turn are the first ones of 30, 45, 30, and all three when the first
  two calls return.
\<close>

theorem every_call_posts_one_chat_completion_request:
  "(\<exists>request.
      snd (make_api_call self w system_prompt user_prompt timeout calls) = calls @ [request]
      \<and> req_url request = base_url self @ ''/chat/completions''
      \<and> req_json request = chat_completion_body (model_name self) system_prompt user_prompt
      \<and> map_of (req_headers request) ''Authorization'' = Some (''Bearer '' @ api_key self)
      \<and> req_timeout request = timeout)
   \<and> (\<forall>request \<in> set (snd (get_response self w flow_setting user_input two_call three_call)).
        req_url request = base_url self @ ''/chat/completions''
        \<and> (\<exists>system_content user_content.
              req_json request =
                chat_completion_body (model_name self) system_content user_content)
        \<and> map_of (req_headers request) ''Authorization'' =
            Some (''Bearer '' @ api_key self))
   \<and> prefix (map req_timeout (snd (get_response self w flow_setting user_input two_call True)))
        [30, 45, 30]
   \<and> (make_api_call self w get_solidity_expert_prompt user_input 30 [] =
         (Inr primary, calls1)
       \<and> make_api_call self w reviewer_system_prompt
           (improvement_prompt (value_repr w) user_input primary) 45 calls1 =
         (Inr improved, calls2) \<longrightarrow>
       map req_timeout (snd (get_response self w flow_setting user_input two_call True)) = [30, 45, 30])"
proof (intro conjI impI ballI)
  show "\<exists>request.
      snd (make_api_call self w system_prompt user_prompt timeout calls) = calls @ [request]
      \<and> req_url request = base_url self @ ''/chat/completions''
      \<and> req_json request = chat_completion_body (model_name self) system_prompt user_prompt
      \<and> map_of (req_headers request) ''Authorization'' = Some (''Bearer '' @ api_key self)
      \<and> req_timeout request = timeout"
    using make_api_call_calls [of self w system_prompt user_prompt timeout calls]
      request_body [of self system_prompt user_prompt timeout]
      request_fields [of self system_prompt user_prompt timeout]
    by blast
next
  fix request
  assume made: "request \<in> set (snd (get_response self w flow_setting user_input two_call three_call))"
  from get_response_request_format [OF made]
  show "req_url request = base_url self @ ''/chat/completions''"
    and "\<exists>system_content user_content.
              req_json request =
                chat_completion_body (model_name self) system_content user_content"
    and "map_of (req_headers request) ''Authorization'' = Some (''Bearer '' @ api_key self)"
    by blast+
next
  show "prefix (map req_timeout (snd (get_response self w flow_setting user_input two_call True)))
        [30, 45, 30]"
    by (cases rule: get_response_calls_cases [of self w flow_setting user_input two_call True])
      (simp_all add: request_fields)
next
  assume "make_api_call self w get_solidity_expert_prompt user_input 30 [] =
         (Inr primary, calls1)
       \<and> make_api_call self w reviewer_system_prompt
           (improvement_prompt (value_repr w) user_input primary) 45 calls1 =
         (Inr improved, calls2)"
  moreover from this have "calls1 = [build_request self get_solidity_expert_prompt user_input 30]"
    using make_api_call_calls [of self w get_solidity_expert_prompt user_input 30 "[]"]
    by simp
  ultimately show
    "map req_timeout (snd (get_response self w flow_setting user_input two_call True)) = [30, 45, 30]"
    using get_response_calls [of self w flow_setting user_input two_call True]
    by (simp add: Let_def request_fields)
qed

text \<open>
  The theorem at the turn whose three calls are completed: the three requests, their
  timeouts and the form of the first.
\<close>

theorem every_call_posts_one_chat_completion_request_witness:
  "map req_timeout
     (snd (get_response demo_copilot
             (scripted [http_response 200 (completion draft),
                        http_response 200 (completion reviewed),
                        http_response 200 (completion ''{}'')])
             (Some True) vault_prompt False True)) = [30, 45, 30]
   \<and> (\<exists>request.
        snd (make_api_call demo_copilot
               (scripted [http_response 200 (completion draft),
                          http_response 200 (completion reviewed),
                          http_response 200 (completion ''{}'')])
               get_solidity_expert_prompt vault_prompt 30 []) = [request]
        \<and> req_url request = ''https://api.fireworks.ai/inference/v1/chat/completions''
        \<and> req_json request =
            chat_completion_body ''accounts/sentientfoundation/loadBalancers/gpt-oss-120b''
              get_solidity_expert_prompt vault_prompt
        \<and> map_of (req_headers request) ''Authorization'' = Some ''Bearer fw_key''
        \<and> req_timeout request = 30)
   \<and> req_url (build_request demo_copilot analyst_system_prompt
                (get_assumptions_prompt (\<lambda>v. ''<value>'') vault_prompt (JStr reviewed)) 30)
       = ''https://api.fireworks.ai/inference/v1/chat/completions''"
proof -
  let ?w = "scripted [http_response 200 (completion draft),
                      http_response 200 (completion reviewed),
                      http_response 200 (completion ''{}'')]"
  let ?request3 = "build_request demo_copilot analyst_system_prompt
      (get_assumptions_prompt (\<lambda>v. ''<value>'') vault_prompt (JStr reviewed)) 30"
  note at_turn = every_call_posts_one_chat_completion_request
    [of demo_copilot ?w get_solidity_expert_prompt vault_prompt 30 "[]" "Some True"
      vault_prompt False True "JStr draft" _ "JStr reviewed"]
  have "?request3 \<in> set (snd (get_response demo_copilot ?w (Some True) vault_prompt False True))"
    by (simp add: vault_turn)
  with at_turn have "req_url ?request3 = base_url demo_copilot @ ''/chat/completions''"
    by blast
  moreover have "map req_timeout (snd (get_response demo_copilot ?w (Some True) vault_prompt False True))
      = [30, 45, 30]"
    using at_turn scripted_step1 scripted_step2 by blast
  ultimately show ?thesis
    using at_turn by (simp add: demo_copilot_def)
qed

subsection \<open>The mode of a turn\<close>

text \<open>
  Claim C8. Without the three-call flag, whatever the two-call flag is,
  \<open>get_response\<close> makes exactly one call, with the expert system prompt and the
  user input, and returns the content of that call unchanged (the apology when the
  call raised). With the three-call flag the two-call flag is not looked at, and the
  sequence runs: the expert call, then, when it returned, the review call on the
  improvement prompt, then, when that returned, the analysis call on the assumptions
  prompt. A run of the page either makes no request, or its requests are those of one
  call of \<open>get_response\<close> with the flags \<open>False\<close> and \<open>True\<close>, and the answer
  that the run appends to the messages is the result of that call: the page never
  reaches the one-call mode.
\<close>

theorem three_call_flag_selects_the_sequence:
  "(\<not> three_call \<longrightarrow>
      snd (get_response self w flow_setting user_input two_call three_call) =
        [build_request self get_solidity_expert_prompt user_input 30]
      \<and> fst (get_response self w flow_setting user_input two_call three_call) =
          (case fst (make_api_call self w get_solidity_expert_prompt user_input 30 []) of
             Inl e \<Rightarrow> Inr (JStr apology)
           | Inr content \<Rightarrow> Inr content))
   \<and> get_response self w flow_setting user_input two_call True =
       get_response self w flow_setting user_input False True
   \<and> snd (get_response self w flow_setting user_input two_call True) =
       (case fst (make_api_call self w get_solidity_expert_prompt user_input 30 []) of
          Inl e \<Rightarrow> [build_request self get_solidity_expert_prompt user_input 30]
        | Inr primary \<Rightarrow>
            (case fst (make_api_call self w reviewer_system_prompt
                         (improvement_prompt (value_repr w) user_input primary) 45
                         [build_request self get_solidity_expert_prompt user_input 30]) of
               Inl e \<Rightarrow>
                 [build_request self get_solidity_expert_prompt user_input 30,
                  build_request self reviewer_system_prompt
                    (improvement_prompt (value_repr w) user_input primary) 45]
             | Inr improved \<Rightarrow>
                 [build_request self get_solidity_expert_prompt user_input 30,
                  build_request self reviewer_system_prompt
                    (improvement_prompt (value_repr w) user_input primary) 45,
                  build_request self analyst_system_prompt
                    (get_assumptions_prompt (value_repr w) user_input improved) 30]))
   \<and> (snd (main self w ui ss0) = []
       \<or> (\<exists>prompt. prompt \<noteq> []
             \<and> snd (main self w ui ss0) =
                 snd (get_response self w (Some True) prompt False True)
             \<and> (\<forall>ss. fst (main self w ui ss0) = Inr ss \<longrightarrow>
                   (\<exists>ms response.
                      messages ss =
                        Some (ms @ [(''user'', JStr prompt), (''assistant'', response)])
                      \<and> fst (get_response self w (Some True) prompt False True) =
                          Inr response))))"
proof (intro conjI impI)
  assume single: "\<not> three_call"
  then show "snd (get_response self w flow_setting user_input two_call three_call) =
        [build_request self get_solidity_expert_prompt user_input 30]"
    by (simp add: get_response_calls)
  show "fst (get_response self w flow_setting user_input two_call three_call) =
          (case fst (make_api_call self w get_solidity_expert_prompt user_input 30 []) of
             Inl e \<Rightarrow> Inr (JStr apology)
           | Inr content \<Rightarrow> Inr content)"
    by (simp add: get_response_single [OF single] split: prod.splits sum.splits)
next
  show "get_response self w flow_setting user_input two_call True =
       get_response self w flow_setting user_input False True"
    by (simp add: get_response_def)
next
  show "snd (get_response self w flow_setting user_input two_call True) =
       (case fst (make_api_call self w get_solidity_expert_prompt user_input 30 []) of
          Inl e \<Rightarrow> [build_request self get_solidity_expert_prompt user_input 30]
        | Inr primary \<Rightarrow>
            (case fst (make_api_call self w reviewer_system_prompt
                         (improvement_prompt (value_repr w) user_input primary) 45
                         [build_request self get_solidity_expert_prompt user_input 30]) of
               Inl e \<Rightarrow>
                 [build_request self get_solidity_expert_prompt user_input 30,
                  build_request self reviewer_system_prompt
                    (improvement_prompt (value_repr w) user_input primary) 45]
             | Inr improved \<Rightarrow>
                 [build_request self get_solidity_expert_prompt user_input 30,
                  build_request self reviewer_system_prompt
                    (improvement_prompt (value_repr w) user_input primary) 45,
                  build_request self analyst_system_prompt
                    (get_assumptions_prompt (value_repr w) user_input improved) 30]))"
    by (simp add: get_response_calls Let_def split: sum.splits)
next
  show "snd (main self w ui ss0) = []
       \<or> (\<exists>prompt. prompt \<noteq> []
             \<and> snd (main self w ui ss0) =
                 snd (get_response self w (Some True) prompt False True)
             \<and> (\<forall>ss. fst (main self w ui ss0) = Inr ss \<longrightarrow>
                   (\<exists>ms response.
                      messages ss =
                        Some (ms @ [(''user'', JStr prompt), (''assistant'', response)])
                      \<and> fst (get_response self w (Some True) prompt False True) =
                          Inr response)))"
    by (rule main_calls)
qed

text \<open>
  The theorem at a one-call turn with the two-call flag set, whose call is completed
  with the draft, and at the three-call turn whose calls are all completed, which is
  also the run of the page after the second quick-start button.
\<close>

theorem three_call_flag_selects_the_sequence_witness:
  "get_response demo_copilot (scripted [http_response 200 (completion draft)])
     (Some True) vault_prompt True False =
     (Inr (JStr draft), [build_request demo_copilot get_solidity_expert_prompt vault_prompt 30])
   \<and> snd (get_response demo_copilot
            (scripted [http_response 200 (completion draft),
                       http_response 200 (completion reviewed),
                       http_response 200 (completion ''{}'')])
            (Some True) vault_prompt True True) =
       [build_request demo_copilot get_solidity_expert_prompt vault_prompt 30,
        build_request demo_copilot reviewer_system_prompt
          (improvement_prompt (\<lambda>v. ''<value>'') vault_prompt (JStr draft)) 45,
        build_request demo_copilot analyst_system_prompt
          (get_assumptions_prompt (\<lambda>v. ''<value>'') vault_prompt (JStr reviewed)) 30]
   \<and> snd (main demo_copilot
            (scripted [http_response 200 (completion draft),
                       http_response 200 (completion reviewed),
                       http_response 200 (completion ''{}'')])
            (idle\<lparr>vault_button := True\<rparr>) empty_session) =
       [build_request demo_copilot get_solidity_expert_prompt vault_prompt 30,
        build_request demo_copilot reviewer_system_prompt
          (improvement_prompt (\<lambda>v. ''<value>'') vault_prompt (JStr draft)) 45,
        build_request demo_copilot analyst_system_prompt
          (get_assumptions_prompt (\<lambda>v. ''<value>'') vault_prompt (JStr reviewed)) 30]"
proof -
  let ?one = "scripted [http_response 200 (completion draft)]"
  let ?w = "scripted [http_response 200 (completion draft),
                      http_response 200 (completion reviewed),
                      http_response 200 (completion ''{}'')]"
  note single = three_call_flag_selects_the_sequence
    [of False demo_copilot ?one "Some True" vault_prompt True]
  note sequence = three_call_flag_selects_the_sequence
    [of True demo_copilot ?w "Some True" vault_prompt True]
  have "get_response demo_copilot ?one (Some True) vault_prompt True False =
     (Inr (JStr draft), [build_request demo_copilot get_solidity_expert_prompt vault_prompt 30])"
    using single scripted_step1 [of "[]" get_solidity_expert_prompt vault_prompt 30]
    by (simp add: prod_eq_iff)
  moreover have "snd (get_response demo_copilot ?w (Some True) vault_prompt True True) =
       [build_request demo_copilot get_solidity_expert_prompt vault_prompt 30,
        build_request demo_copilot reviewer_system_prompt
          (improvement_prompt (\<lambda>v. ''<value>'') vault_prompt (JStr draft)) 45,
        build_request demo_copilot analyst_system_prompt
          (get_assumptions_prompt (\<lambda>v. ''<value>'') vault_prompt (JStr reviewed)) 30]"
    using sequence vault_turn by simp
  ultimately show ?thesis
    by (simp add: vault_run)
qed

subsection \<open>The user prompt of every request\<close>



end
